theory Spec2Isabelle
  imports Main "HOL-Library.AList" "HOL-Library.Sublist"
begin

section \<open>Domain entities\<close>

text \<open>
  The dataclasses of \<^verbatim>\<open>domain/entities/project.py\<close>. A Python \<^verbatim>\<open>str\<close> is a
  \<^typ>\<open>string\<close>, an \<^verbatim>\<open>Optional[str]\<close> a \<^typ>\<open>string option\<close>, an unbounded \<^verbatim>\<open>int\<close>
  an \<^typ>\<open>int\<close>. The record fields carry a prefix because two dataclasses share the
  field names \<^verbatim>\<open>name\<close> and \<^verbatim>\<open>category\<close>. The dictionaries \<^verbatim>\<open>structure\<close> and
  \<^verbatim>\<open>metadata\<close> of a project are not read by the methods modelled in this section and
  are left out of the record.
\<close>

record technology =
  tech_name :: string
  tech_category :: string
  tech_version :: "string option"
  tech_importance :: int

record feature =
  feature_name :: string
  feature_description :: string
  feature_category :: string
  feature_priority :: int

record project =
  proj_name :: string
  proj_path :: string
  proj_description :: string
  technologies :: "technology list"
  features :: "feature list"

text \<open>
  \<^verbatim>\<open>xs.sort(key=k, reverse=True)\<close> and \<^verbatim>\<open>sorted(xs, key=k, reverse=True)\<close> are stable:
  elements with equal keys keep their order. A stable descending sort is the stable
  ascending sort \<^const>\<open>sort_key\<close> on the negated key.
\<close>

definition sort_desc :: "('a \<Rightarrow> int) \<Rightarrow> 'a list \<Rightarrow> 'a list" where
  "sort_desc k xs = sort_key (\<lambda>x. - k x) xs"

definition language_technologies :: "project \<Rightarrow> technology list" where
  "language_technologies p = filter (\<lambda>tech. tech_category tech = ''language'') (technologies p)"

definition get_primary_language :: "project \<Rightarrow> string option" where
  "get_primary_language p =
     (let languages = language_technologies p in
      if languages \<noteq> []
      then (let languages = sort_desc tech_importance languages
            in Some (tech_name (hd languages)))
      else None)"

definition main_language :: "project \<Rightarrow> string option" where
  "main_language p =
     (if technologies p = [] then None
      else
        (let sorted_tech = sort_desc tech_importance (technologies p);
             programming_languages = filter (\<lambda>t. tech_category t = ''language'') sorted_tech
         in if programming_languages \<noteq> [] then Some (tech_name (hd programming_languages))
            else (if sorted_tech \<noteq> [] then Some (tech_name (hd sorted_tech)) else None)))"

text \<open>A technology of the list whose importance no other technology of the list exceeds.\<close>

definition top_importance :: "technology list \<Rightarrow> technology \<Rightarrow> bool" where
  "top_importance ts t \<longleftrightarrow> t \<in> set ts \<and> (\<forall>u \<in> set ts. tech_importance u \<le> tech_importance t)"

section \<open>Text and path primitives\<close>

text \<open>
  Python strings are sequences of code points; a \<^typ>\<open>char\<close> stands for one code point
  below 256. \<^verbatim>\<open>s.lower()\<close> maps the letters A to Z and the letters from 192 to 222
  (except the multiplication sign 215) to the code point 32 above and leaves every other
  code point below 256 unchanged. \<^verbatim>\<open>k in s\<close> on strings is \<^const>\<open>sublist\<close>,
  \<^verbatim>\<open>s.startswith(k)\<close> is \<^const>\<open>prefix\<close> and \<^verbatim>\<open>s.endswith(k)\<close> is
  \<^const>\<open>suffix\<close>.
\<close>

definition lower_char :: "char \<Rightarrow> char" where
  "lower_char c =
     (let n = (of_char c :: nat)
      in if (65 \<le> n \<and> n \<le> 90) \<or> (192 \<le> n \<and> n \<le> 222 \<and> n \<noteq> 215)
         then char_of (n + 32) else c)"

definition lower :: "string \<Rightarrow> string" where
  "lower s = map lower_char s"

text \<open>
  The title-case form that \<^verbatim>\<open>s.capitalize()\<close> gives the first character: the letters a to
  z and the letters from 224 to 254 (except the division sign 247) go to the code point 32
  below, the sharp s (223) becomes \<^verbatim>\<open>Ss\<close>, and every other code point stays. For the micro
  sign (181) and the y with diaeresis (255) the title-case form is a code point above 255,
  which a \<^typ>\<open>char\<close> cannot hold: \<open>title_in_range\<close> excludes these two, the
  function leaves them unchanged, and statements about capitalized text assume
  \<open>title_in_range\<close>.
\<close>

definition title_in_range :: "char \<Rightarrow> bool" where
  "title_in_range c \<longleftrightarrow> (of_char c :: nat) \<noteq> 181 \<and> (of_char c :: nat) \<noteq> 255"

definition title_char :: "char \<Rightarrow> string" where
  "title_char c =
     (let n = (of_char c :: nat)
      in if (97 \<le> n \<and> n \<le> 122) \<or> (224 \<le> n \<and> n \<le> 254 \<and> n \<noteq> 247)
         then [char_of (n - 32)]
         else if n = 223 then ''Ss''
         else [c])"

text \<open>\<^verbatim>\<open>os.path.join(a, b)\<close> of \<^verbatim>\<open>posixpath\<close>, for two components.\<close>

definition path_join :: "string \<Rightarrow> string \<Rightarrow> string" where
  "path_join a b =
     (if prefix ''/'' b then b
      else if a = [] \<or> last a = CHR ''/'' then a @ b
      else a @ ''/'' @ b)"

text \<open>
  The extension part of \<^verbatim>\<open>os.path.splitext(name)\<close> for a bare file name: the text from the
  last dot on, provided some character other than a dot stands before that dot.
\<close>

definition splitext_ext :: "string \<Rightarrow> string" where
  "splitext_ext p =
     (let rest = dropWhile (\<lambda>c. c \<noteq> CHR ''.'') (rev p)
      in if rest = [] then []
         else (let stem = rev (tl rest)
               in if list_ex (\<lambda>c. c \<noteq> CHR ''.'') stem then drop (length stem) p else []))"

section \<open>The file system as the analyzers see it\<close>

text \<open>
  A project directory is a tree. A file has a name, the size \<^verbatim>\<open>os.path.getsize\<close> reports
  (\<^const>\<open>None\<close> when the call raises) and the text \<^verbatim>\<open>read_file\<close> returns (\<^const>\<open>None\<close> when
  reading raises). The children of a directory are kept in the order in which the
  operating system lists them.
\<close>

record fs_file =
  file_name :: string
  file_size :: "int option"
  file_content :: "string option"

datatype fs_node = FsFile fs_file | FsDir string "fs_node list"

fun dir_names :: "fs_node list \<Rightarrow> string list" where
  "dir_names [] = []"
| "dir_names (FsDir n cs # rest) = n # dir_names rest"
| "dir_names (FsFile f # rest) = dir_names rest"

fun file_entries :: "fs_node list \<Rightarrow> fs_file list" where
  "file_entries [] = []"
| "file_entries (FsFile f # rest) = f # file_entries rest"
| "file_entries (FsDir n cs # rest) = file_entries rest"

text \<open>
  One triple of \<^verbatim>\<open>os.walk\<close>: the directory path \<^verbatim>\<open>root\<close>, the names of its
  sub-directories and its files. \<open>walk_rel\<close> is the list of directory names leading from
  the walk's top to \<^verbatim>\<open>root\<close>, from which \<^verbatim>\<open>os.path.relpath\<close> is computed.
\<close>

record walk_entry =
  walk_root :: string
  walk_rel :: "string list"
  walk_dirs :: "string list"
  walk_files :: "fs_file list"

text \<open>
  \<^verbatim>\<open>os.walk(top)\<close>, top-down. The loop body may prune \<^verbatim>\<open>dirs\<close> in place
  (\<^verbatim>\<open>dirs[:] = [d for d in dirs if ...]\<close>); the predicate \<open>keep\<close> is that filter, and a
  walk that does not prune passes \<open>\<lambda>_. True\<close>. Pruned directories are not entered.
\<close>

fun walk_node :: "(string \<Rightarrow> bool) \<Rightarrow> string \<Rightarrow> string list \<Rightarrow> fs_node \<Rightarrow> walk_entry list" where
  "walk_node keep parent rel (FsFile f) = []"
| "walk_node keep parent rel (FsDir n cs) =
     (if keep n
      then \<lparr>walk_root = path_join parent n, walk_rel = rel @ [n],
            walk_dirs = filter keep (dir_names cs), walk_files = file_entries cs\<rparr>
           # concat (map (walk_node keep (path_join parent n) (rel @ [n])) cs)
      else [])"

definition os_walk :: "(string \<Rightarrow> bool) \<Rightarrow> string \<Rightarrow> fs_node list \<Rightarrow> walk_entry list" where
  "os_walk keep top_path cs =
     \<lparr>walk_root = top_path, walk_rel = [], walk_dirs = filter keep (dir_names cs),
      walk_files = file_entries cs\<rparr>
     # concat (map (walk_node keep top_path []) cs)"

section \<open>Structure analyzer: file statistics\<close>

definition ignored_dirs :: "string list" where
  "ignored_dirs =
     [''.git'', ''.github'', ''.vscode'', ''.idea'', ''.vs'',
      ''node_modules'', ''__pycache__'', ''venv'', ''env'',
      ''dist'', ''build'', ''target'', ''bin'', ''obj'',
      ''.pytest_cache'', ''.coverage'', ''.next'', ''coverage'',
      ''.nuget'', ''packages'', ''.gradle'']"

definition ignored_files :: "string list" where
  "ignored_files =
     [''.gitignore'', ''.gitattributes'', ''.DS_Store'', ''Thumbs.db'',
      ''.env'', ''.env.local'', ''.env.development'', ''.env.test'', ''.env.production'',
      ''*.pyc'', ''*.pyo'', ''*.pyd'', ''*.so'', ''*.dll'', ''*.exe'', ''*.obj'', ''*.o'',
      ''*.a'', ''*.lib'', ''*.egg'', ''*.egg-info'', ''*.whl'', ''*.pdb'', ''*.cache'',
      ''*.class'', ''*.jar'', ''*.war'', ''*.ear'', ''*.zip'', ''*.tar.gz'', ''*.rar'']"

text \<open>
  \<^verbatim>\<open>item in patterns or any(item.endswith(pattern[1:]) for pattern in patterns
  if pattern.startswith('*'))\<close>
\<close>

definition is_ignored :: "string list \<Rightarrow> string \<Rightarrow> bool" where
  "is_ignored patterns item \<longleftrightarrow>
     item \<in> set patterns
     \<or> list_ex (\<lambda>pattern. suffix (tl pattern) item) (filter (prefix ''*'') patterns)"

record largest_file =
  lf_path :: string
  lf_size :: int

record file_stats =
  total_files :: nat
  total_dirs :: nat
  file_types :: "(string \<times> nat) list"
  largest_files :: "largest_file list"

text \<open>\<^verbatim>\<open>os.path.relpath(os.path.join(root, file), project_path)\<close> for a walked file.\<close>

definition relpath :: "string list \<Rightarrow> string \<Rightarrow> string" where
  "relpath rel file = foldr path_join rel file"

text \<open>\<^verbatim>\<open>d[ext] = d.get(ext, 0) + 1\<close> on a dictionary kept in insertion order.\<close>

definition count_ext :: "string \<Rightarrow> (string \<times> nat) list \<Rightarrow> (string \<times> nat) list" where
  "count_ext ext d = AList.update ext (case map_of d ext of None \<Rightarrow> 1 | Some n \<Rightarrow> n + 1) d"

text \<open>
  The body of the \<^verbatim>\<open>try\<close> block: the file enters the list when fewer than five files are
  recorded or when it is larger than the last (smallest) recorded one; the list is then
  re-sorted by size, descending, and cut to five entries.
\<close>

definition add_largest :: "largest_file list \<Rightarrow> string \<Rightarrow> int \<Rightarrow> largest_file list" where
  "add_largest lfs path sz =
     (if length lfs < 5 \<or> sz > lf_size (last lfs)
      then take 5 (sort_desc lf_size (lfs @ [\<lparr>lf_path = path, lf_size = sz\<rparr>]))
      else lfs)"

definition stats_file :: "string list \<Rightarrow> string list \<Rightarrow> file_stats \<Rightarrow> fs_file \<Rightarrow> file_stats" where
  "stats_file ign_files rel stats file =
     (if is_ignored ign_files (file_name file) then stats
      else
        (let stats = stats\<lparr>total_files := total_files stats + 1\<rparr>;
             ext = lower (splitext_ext (file_name file));
             stats = (if ext \<noteq> [] then stats\<lparr>file_types := count_ext ext (file_types stats)\<rparr>
                      else stats)
         in case file_size file of
              None \<Rightarrow> stats
            | Some sz \<Rightarrow>
                stats\<lparr>largest_files :=
                  add_largest (largest_files stats) (relpath rel (file_name file)) sz\<rparr>))"

definition stats_entry :: "string list \<Rightarrow> file_stats \<Rightarrow> walk_entry \<Rightarrow> file_stats" where
  "stats_entry ign_files stats e =
     foldl (stats_file ign_files (walk_rel e))
       (stats\<lparr>total_dirs := total_dirs stats + length (walk_dirs e)\<rparr>) (walk_files e)"

definition collect_file_stats :: "string \<Rightarrow> fs_node list \<Rightarrow> string list \<Rightarrow> string list \<Rightarrow> file_stats" where
  "collect_file_stats project_path tree ign_dirs ign_files =
     foldl (stats_entry ign_files)
       \<lparr>total_files = 0, total_dirs = 0, file_types = [], largest_files = []\<rparr>
       (os_walk (\<lambda>d. \<not> is_ignored ign_dirs d) project_path tree)"

text \<open>The \<^verbatim>\<open>"stats"\<close> entry of \<^verbatim>\<open>analyze_structure\<close>.\<close>

definition analyze_structure_stats :: "string \<Rightarrow> fs_node list \<Rightarrow> file_stats" where
  "analyze_structure_stats project_path tree =
     collect_file_stats project_path tree ignored_dirs ignored_files"

definition top5_sorted :: "largest_file list \<Rightarrow> bool" where
  "top5_sorted lfs \<longleftrightarrow> length lfs \<le> 5 \<and> sorted_wrt (\<lambda>a b. lf_size a \<ge> lf_size b) lfs"

section \<open>Technology registry\<close>

text \<open>
  While technologies are being detected they are dictionaries with the keys \<^verbatim>\<open>"name"\<close> and
  \<^verbatim>\<open>"importance"\<close> (and \<^verbatim>\<open>"count"\<close> for the languages of the extension census), grouped in
  a dictionary from category to list. A Python dictionary keeps its keys in insertion
  order, so the grouping is an association list with distinct keys: \<^const>\<open>map_of\<close> reads it
  and \<^const>\<open>AList.update\<close> writes it, replacing in place or appending a new key at the end.
\<close>

record tech_entry =
  entry_name :: string
  entry_count :: "nat option"
  entry_importance :: int

type_synonym tech_data = "(string \<times> tech_entry list) list"

text \<open>\<^verbatim>\<open>result.get(category, [])\<close>\<close>

definition entries_of :: "tech_data \<Rightarrow> string \<Rightarrow> tech_entry list" where
  "entries_of result category = (case map_of result category of None \<Rightarrow> [] | Some ts \<Rightarrow> ts)"

text \<open>
  The loop of \<^verbatim>\<open>_add_technology_if_not_exists\<close> over \<^verbatim>\<open>result[category]\<close>: the first entry
  with the given name has its importance raised when it is lower, and the function returns;
  when no entry has the name, a new one is appended.
\<close>

fun upsert_entry :: "tech_entry list \<Rightarrow> string \<Rightarrow> int \<Rightarrow> tech_entry list" where
  "upsert_entry [] name importance =
     [\<lparr>entry_name = name, entry_count = None, entry_importance = importance\<rparr>]"
| "upsert_entry (tech # rest) name importance =
     (if entry_name tech = name
      then (if entry_importance tech < importance
            then tech\<lparr>entry_importance := importance\<rparr> # rest
            else tech # rest)
      else tech # upsert_entry rest name importance)"

definition add_technology_if_not_exists :: "tech_data \<Rightarrow> string \<Rightarrow> string \<Rightarrow> int \<Rightarrow> tech_data" where
  "add_technology_if_not_exists result category name importance =
     (let result = (if map_of result category = None then AList.update category [] result
                    else result)
      in AList.update category (upsert_entry (entries_of result category) name importance) result)"



text \<open>The dictionary \<^verbatim>\<open>detect_technologies\<close> starts from.\<close>

definition initial_result :: tech_data where
  "initial_result =
     [(''language'', []), (''framework'', []), (''database'', []), (''frontend'', []),
      (''backend'', []), (''devops'', []), (''testing'', []), (''architecture'', []),
      (''other'', [])]"

section \<open>Project aggregator: from the registry to the technology list\<close>

definition map_library_category_to_tech_category :: "string \<Rightarrow> string" where
  "map_library_category_to_tech_category lib_category =
     (case map_of
        [(''framework'', ''framework''), (''frontend'', ''frontend''), (''backend'', ''backend''),
         (''database'', ''database''), (''networking'', ''backend''), (''data-science'', ''other''),
         (''ai'', ''other''), (''web-scraping'', ''backend''), (''web-automation'', ''backend''),
         (''testing'', ''testing''), (''async'', ''backend''), (''messaging'', ''backend''),
         (''imaging'', ''other''), (''cloud'', ''devops''), (''build-tool'', ''devops''),
         (''state-management'', ''frontend''), (''multimedia'', ''other''), (''youtube'', ''backend'')]
        lib_category of
        None \<Rightarrow> ''other''
      | Some c \<Rightarrow> c)"

text \<open>
  The second loop of \<^verbatim>\<open>_enrich_technologies_from_source\<close>, over the libraries found in the
  sources (\<^verbatim>\<open>found_libraries\<close>, a dictionary from library name to category and
  description): a library is appended with importance 3 to its mapped category unless an
  entry there has the same name up to case.
\<close>

definition add_found_library :: "tech_data \<Rightarrow> string \<times> string \<times> string \<Rightarrow> tech_data" where
  "add_found_library tech_data found =
     (case found of (lib, category, description) \<Rightarrow>
        (let mapped_category = map_library_category_to_tech_category category;
             exists = list_ex (\<lambda>tech. lower (entry_name tech) = lower lib)
                        (entries_of tech_data mapped_category)
         in if \<not> exists
            then (let tech_data = (if map_of tech_data mapped_category = None
                                   then AList.update mapped_category [] tech_data
                                   else tech_data)
                  in AList.update mapped_category
                       (entries_of tech_data mapped_category
                          @ [\<lparr>entry_name = lib, entry_count = None, entry_importance = 3\<rparr>])
                       tech_data)
            else tech_data))"

definition add_found_libraries :: "(string \<times> string \<times> string) list \<Rightarrow> tech_data \<Rightarrow> tech_data" where
  "add_found_libraries found_libraries tech_data = foldl add_found_library tech_data found_libraries"

definition required_categories :: "string list" where
  "required_categories =
     [''language'', ''framework'', ''frontend'', ''backend'', ''database'', ''devops'',
      ''testing'', ''architecture'', ''other'']"

text \<open>
  The loop of \<^verbatim>\<open>analyze\<close> after the enrichment: every required category that is not yet a
  key is added with an empty list.
\<close>

definition fill_required_categories :: "tech_data \<Rightarrow> tech_data" where
  "fill_required_categories tech_data =
     foldl (\<lambda>td category. if map_of td category = None then AList.update category [] td else td)
       tech_data required_categories"

text \<open>
  \<^verbatim>\<open>_convert_technologies_data\<close>: the entries of every category, in the order of the
  dictionary, as \<^verbatim>\<open>Technology\<close> objects. No detector records a version.
\<close>

definition convert_technologies_data :: "tech_data \<Rightarrow> technology list" where
  "convert_technologies_data tech_data =
     concat (map (\<lambda>(category, items).
        map (\<lambda>item. \<lparr>tech_name = entry_name item, tech_category = category,
                      tech_version = None, tech_importance = entry_importance item\<rparr>) items)
       tech_data)"

text \<open>
  The two steps of \<^verbatim>\<open>analyze\<close> between detection and conversion, on what
  \<^verbatim>\<open>detect_technologies\<close> returned and the libraries the enrichment found.
\<close>

definition technology_mapping :: "tech_data \<Rightarrow> (string \<times> string \<times> string) list \<Rightarrow> tech_data" where
  "technology_mapping detected found_libraries =
     fill_required_categories (add_found_libraries found_libraries detected)"

definition nine_categories :: "string list" where
  "nine_categories =
     [''language'', ''framework'', ''database'', ''frontend'', ''backend'', ''devops'',
      ''testing'', ''architecture'', ''other'']"

section \<open>Manifest parsers: requirements.txt\<close>

text \<open>
  \<^verbatim>\<open>str.isspace\<close> on the code points below 256: the controls 9 to 13 and 28 to 31, the
  space, NEL (133) and the no-break space (160). \<^verbatim>\<open>s.strip()\<close> removes such characters
  from both ends.
\<close>

definition is_space :: "char \<Rightarrow> bool" where
  "is_space c =
     (let n = (of_char c :: nat)
      in (9 \<le> n \<and> n \<le> 13) \<or> (28 \<le> n \<and> n \<le> 32) \<or> n = 133 \<or> n = 160)"

definition strip :: "string \<Rightarrow> string" where
  "strip s = rev (dropWhile is_space (rev (dropWhile is_space s)))"

text \<open>
  \<^verbatim>\<open>str.splitlines()\<close>: a line ends at a line feed, a carriage return (taken together with
  a line feed that follows it), a vertical tab, a form feed, a file, group or record
  separator, or NEL; the line ends are dropped and a final line end opens no further line.
\<close>

definition is_linebreak :: "char \<Rightarrow> bool" where
  "is_linebreak c =
     (let n = (of_char c :: nat) in (10 \<le> n \<and> n \<le> 13) \<or> (28 \<le> n \<and> n \<le> 30) \<or> n = 133)"

fun splitlines_from :: "string \<Rightarrow> string \<Rightarrow> string list" where
  "splitlines_from cur [] = (if cur = [] then [] else [rev cur])"
| "splitlines_from cur [c] = (if is_linebreak c then [rev cur] else [rev (c # cur)])"
| "splitlines_from cur (c # d # cs) =
     (if c = CHR 0x0D \<and> d = CHR 0x0A then rev cur # splitlines_from [] cs
      else if is_linebreak c then rev cur # splitlines_from [] (d # cs)
      else splitlines_from (c # cur) (d # cs))"

definition splitlines :: "string \<Rightarrow> string list" where
  "splitlines s = splitlines_from [] s"

text \<open>
  \<^verbatim>\<open>s.split(sep, 1)\<close> for a separator that occurs in \<^verbatim>\<open>s\<close>: the text before and the
  text after the leftmost occurrence.
\<close>

fun split_first :: "string \<Rightarrow> string \<Rightarrow> string \<times> string" where
  "split_first sep [] = ([], [])"
| "split_first sep (c # cs) =
     (if prefix sep (c # cs) then ([], drop (length sep) (c # cs))
      else (case split_first sep cs of (before, after) \<Rightarrow> (c # before, after)))"

record package =
  pkg_name :: string
  pkg_version :: string

text \<open>
  The body of the loop over the lines of \<^verbatim>\<open>_parse_requirements_txt\<close>; \<^const>\<open>None\<close> is the
  \<^verbatim>\<open>continue\<close> of a blank or comment line.
\<close>

definition parse_requirement_line :: "string \<Rightarrow> package option" where
  "parse_requirement_line raw =
     (let line = strip raw
      in if line = [] \<or> prefix ''#'' line then None
         else
           (let (name, version) =
                  (if sublist ''=='' line then split_first ''=='' line
                   else if sublist ''>='' line then split_first ''>='' line
                   else if sublist ''<='' line then split_first ''<='' line
                   else if sublist ''~='' line then split_first ''~='' line
                   else (line, ''''));
                name = strip name;
                version = (if version \<noteq> [] then strip version else version)
            in Some \<lparr>pkg_name = name, pkg_version = version\<rparr>))"

fun parse_requirement_lines :: "string list \<Rightarrow> package list" where
  "parse_requirement_lines [] = []"
| "parse_requirement_lines (raw # rest) =
     (case parse_requirement_line raw of
        None \<Rightarrow> parse_requirement_lines rest
      | Some package \<Rightarrow> package # parse_requirement_lines rest)"

text \<open>
  \<^verbatim>\<open>_parse_requirements_txt\<close> on the text \<^verbatim>\<open>read_file\<close> returns; when reading raises, the
  \<^verbatim>\<open>except\<close> branch leaves the list empty.
\<close>

definition parse_requirements_txt :: "string option \<Rightarrow> package list" where
  "parse_requirements_txt content =
     (case content of
        None \<Rightarrow> []
      | Some text \<Rightarrow> parse_requirement_lines (splitlines text))"

text \<open>
  The specification's reading: the operators are tried in the order \<^verbatim>\<open>==\<close>, \<^verbatim>\<open>>=\<close>,
  \<^verbatim>\<open><=\<close>, \<^verbatim>\<open>~=\<close>, and the first one that occurs in the line is the one the line is split
  on, at its leftmost occurrence.
\<close>

definition spec_operator :: "string \<Rightarrow> string option" where
  "spec_operator line = find (\<lambda>op. sublist op line) [''=='', ''>='', ''<='', ''~='']"

definition leftmost_split :: "string \<Rightarrow> string \<Rightarrow> string \<Rightarrow> string \<Rightarrow> bool" where
  "leftmost_split sep s before after \<longleftrightarrow>
     s = before @ sep @ after \<and> \<not> sublist sep (before @ butlast sep)"

section \<open>Project aggregator: the description\<close>

text \<open>\<^verbatim>\<open>s.split(sep)\<close> for a separator of one character; the result is never empty.\<close>

fun split_on :: "char \<Rightarrow> string \<Rightarrow> string list" where
  "split_on sep [] = [[]]"
| "split_on sep (c # cs) =
     (if c = sep then [] # split_on sep cs
      else (case split_on sep cs of
              [] \<Rightarrow> [[c]]
            | part # parts \<Rightarrow> (c # part) # parts))"

text \<open>\<^verbatim>\<open>description[:200] + ('...' if len(description) > 200 else '')\<close>\<close>

definition truncate_200 :: "string \<Rightarrow> string" where
  "truncate_200 description =
     take 200 description @ (if length description > 200 then ''...'' else '''')"

text \<open>
  The loop \<^verbatim>\<open>for i, line in enumerate(lines)\<close> over the lines of README.md, from index
  \<open>i\<close> on: the first line that is not blank, does not start with \<^verbatim>\<open>#\<close> and has an index
  above 0 is returned, stripped and truncated.
\<close>

fun readme_scan :: "nat \<Rightarrow> string list \<Rightarrow> string option" where
  "readme_scan i [] = None"
| "readme_scan i (line # rest) =
     (if strip line \<noteq> [] \<and> \<not> prefix ''#'' line \<and> i > 0
      then Some (truncate_200 (strip line))
      else readme_scan (i + 1) rest)"

definition readme_description :: "string \<Rightarrow> string option" where
  "readme_description content = readme_scan 0 (split_on (CHR 0x0A) content)"

text \<open>
  \<^verbatim>\<open>_detect_project_description\<close> up to the README provider. \<open>package_description\<close> is
  the \<^verbatim>\<open>description\<close> field of a package.json that exists and parses (\<^const>\<open>None\<close>
  otherwise), \<open>readme\<close> the text of a README.md that exists and can be read, and \<open>later\<close>
  the answer of the providers that follow (project files, doc comments, the synthesized
  sentence, the literal fallback), which always produce a string.
\<close>

definition detect_project_description :: "string option \<Rightarrow> string option \<Rightarrow> string \<Rightarrow> string" where
  "detect_project_description package_description readme later =
     (case package_description of
        Some description \<Rightarrow> description
      | None \<Rightarrow>
          (case readme of
             None \<Rightarrow> later
           | Some content \<Rightarrow>
               (case readme_description content of
                  Some description \<Rightarrow> description
                | None \<Rightarrow> later)))"

text \<open>A line the README provider may use: not blank and not starting with \<^verbatim>\<open>#\<close>.\<close>

definition description_line :: "string \<Rightarrow> bool" where
  "description_line line \<longleftrightarrow> strip line \<noteq> [] \<and> \<not> prefix ''#'' line"

text \<open>The specification's reading: the first such line of the whole file.\<close>

definition spec_readme_line :: "string \<Rightarrow> string option" where
  "spec_readme_line content = find description_line (split_on (CHR 0x0A) content)"

section \<open>Feature inferencer\<close>

text \<open>
  The dictionary \<^verbatim>\<open>feature_counters\<close> has ten fixed keys, a datatype here. The dictionary
  is an association list in the order of its creation, \<^verbatim>\<open>feature_counters[t] += k\<close> is
  \<^const>\<open>AList.map_entry\<close> (the key is always present), and \<open>feature_types\<close> lists
  the keys in the order of creation.
\<close>

datatype feature_type =
  Web | Api | Cli | Database | Ai | Scraping | Testing | Auth | File_processing | Async

type_synonym counters = "(feature_type \<times> nat) list"

definition feature_types :: "feature_type list" where
  "feature_types = [Web, Api, Cli, Database, Ai, Scraping, Testing, Auth, File_processing, Async]"

definition initial_counters :: counters where
  "initial_counters = map (\<lambda>t. (t, 0)) feature_types"

definition bump :: "feature_type \<Rightarrow> nat \<Rightarrow> counters \<Rightarrow> counters" where
  "bump t k c = AList.map_entry t (\<lambda>n. n + k) c"

definition count_of :: "counters \<Rightarrow> feature_type \<Rightarrow> nat" where
  "count_of c t = (case map_of c t of Some n \<Rightarrow> n | None \<Rightarrow> 0)"

fun type_key :: "feature_type \<Rightarrow> string" where
  "type_key Web = ''web''"
| "type_key Api = ''api''"
| "type_key Cli = ''cli''"
| "type_key Database = ''database''"
| "type_key Ai = ''ai''"
| "type_key Scraping = ''scraping''"
| "type_key Testing = ''testing''"
| "type_key Auth = ''auth''"
| "type_key File_processing = ''file_processing''"
| "type_key Async = ''async''"

text \<open>
  The keyword lists \<^verbatim>\<open>web_indicators\<close>, \<^verbatim>\<open>api_indicators\<close>, \<^verbatim>\<open>cli_indicators\<close>,
  \<^verbatim>\<open>db_indicators\<close>, \<^verbatim>\<open>ai_indicators\<close>, \<^verbatim>\<open>scraping_indicators\<close>,
  \<^verbatim>\<open>testing_indicators\<close>, \<^verbatim>\<open>auth_indicators\<close>, \<^verbatim>\<open>file_processing_indicators\<close> and
  \<^verbatim>\<open>async_indicators\<close>.
\<close>

fun indicators :: "feature_type \<Rightarrow> string list" where
  "indicators Web =
     [''flask'', ''django'', ''express'', ''fastapi'', ''router'', ''route'', ''templates'', ''views'',
      ''controllers'', ''app.get'', ''app.post'', ''render'', ''request'', ''response'']"
| "indicators Api =
     [''api'', ''rest'', ''graphql'', ''endpoint'', ''controller'', ''route'', ''restful'',
      ''@app.route'', ''@api'', ''router'', ''apicontroller'']"
| "indicators Cli =
     [''cli'', ''command'', ''argparse'', ''click'', ''commander'', ''yargs'', ''parser'', ''flag'',
      ''argument'', ''option'', ''argv'']"
| "indicators Database =
     [''database'', ''db'', ''mongo'', ''sql'', ''postgresql'', ''mysql'', ''sqlite'', ''orm'',
      ''query'', ''model'', ''entity'', ''repository'', ''dao'']"
| "indicators Ai =
     [''model'', ''train'', ''predict'', ''machine learning'', ''tensorflow'', ''pytorch'',
      ''keras'', ''sklearn'', ''ml'', ''ai'', ''neural'']"
| "indicators Scraping =
     [''scrape'', ''crawler'', ''spider'', ''beautifulsoup'', ''selenium'', ''requests'',
      ''http'', ''html'', ''parse'', ''extract'']"
| "indicators Testing =
     [''test'', ''spec'', ''assert'', ''expect'', ''should'', ''mock'', ''stub'', ''fixture'']"
| "indicators Auth =
     [''auth'', ''login'', ''register'', ''password'', ''user'', ''token'', ''jwt'', ''oauth'',
      ''credential'', ''permission'']"
| "indicators File_processing =
     [''file'', ''read'', ''write'', ''open'', ''save'', ''load'', ''import'', ''export'',
      ''csv'', ''excel'', ''json'', ''yaml'', ''xml'', ''parser'']"
| "indicators Async =
     [''async'', ''await'', ''promise'', ''coroutine'', ''future'', ''deferred'', ''callback'',
      ''worker'']"

text \<open>\<^verbatim>\<open>os.listdir\<close>: the names of all entries of a directory, files and directories alike.\<close>

fun node_name :: "fs_node \<Rightarrow> string" where
  "node_name (FsFile f) = file_name f"
| "node_name (FsDir n cs) = n"

definition listdir :: "fs_node list \<Rightarrow> string list" where
  "listdir entries = map node_name entries"

text \<open>The entries of the sub-directory of the given name, if there is one (\<^verbatim>\<open>os.path.isdir\<close>).\<close>

fun subdir :: "fs_node list \<Rightarrow> string \<Rightarrow> fs_node list option" where
  "subdir [] name = None"
| "subdir (FsFile f # rest) name = subdir rest name"
| "subdir (FsDir n cs # rest) name = (if n = name then Some cs else subdir rest name)"

text \<open>
  The source files the inferencer samples: one walk over the project, skipping every
  directory whose path contains one of six names as a substring, keeping the files with one
  of six extensions, and cutting the list to its first 50 entries.
\<close>

definition feature_extensions :: "string list" where
  "feature_extensions = [''.py'', ''.js'', ''.ts'', ''.java'', ''.php'', ''.rb'']"

definition walk_ignored_names :: "string list" where
  "walk_ignored_names = [''.git'', ''node_modules'', ''venv'', ''__pycache__'', ''dist'', ''build'']"

definition source_files_of :: "string list \<Rightarrow> walk_entry list \<Rightarrow> fs_file list" where
  "source_files_of extensions entries =
     concat (map (\<lambda>e.
        if list_ex (\<lambda>ignored. sublist ignored (walk_root e)) walk_ignored_names then []
        else filter (\<lambda>file. lower (splitext_ext (file_name file)) \<in> set extensions) (walk_files e))
       entries)"

definition sampled_source_files :: "string \<Rightarrow> fs_node list \<Rightarrow> fs_file list" where
  "sampled_source_files project_path tree =
     take 50 (source_files_of feature_extensions (os_walk (\<lambda>_. True) project_path tree))"

text \<open>
  One of the ten loops over a keyword list:
  \<^verbatim>\<open>for indicator in xs: if indicator in content: feature_counters[t] += 1\<close>
\<close>

definition count_indicators :: "feature_type \<Rightarrow> string \<Rightarrow> counters \<Rightarrow> counters" where
  "count_indicators t content c =
     foldl (\<lambda>c indicator. if sublist indicator content then bump t 1 c else c) c (indicators t)"

definition scan_content :: "string \<Rightarrow> counters \<Rightarrow> counters" where
  "scan_content content c = foldl (\<lambda>c t. count_indicators t content c) c feature_types"

text \<open>
  The loop over the sampled files. \<^verbatim>\<open>os.path.getsize\<close> stands outside the \<^verbatim>\<open>try\<close> block:
  when it raises, the exception leaves the function (\<^const>\<open>None\<close>). A file above 100000
  bytes and a file that cannot be read are skipped.
\<close>

fun scan_files :: "fs_file list \<Rightarrow> counters \<Rightarrow> counters option" where
  "scan_files [] c = Some c"
| "scan_files (file # rest) c =
     (case file_size file of
        None \<Rightarrow> None
      | Some sz \<Rightarrow>
          if sz > 100000 then scan_files rest c
          else (case file_content file of
                  None \<Rightarrow> scan_files rest c
                | Some text \<Rightarrow> scan_files rest (scan_content (lower text) c)))"

text \<open>The loop over the directory names: a name that contains a keyword of a list adds 5.\<close>

definition dir_bonus :: "string list \<Rightarrow> counters \<Rightarrow> counters" where
  "dir_bonus project_dirs c =
     foldl (\<lambda>c dir_name.
        foldl (\<lambda>c t. if list_ex (\<lambda>indicator. sublist indicator dir_name) (indicators t)
                        then bump t 5 c else c) c feature_types)
       c project_dirs"

text \<open>The loop over the detected technologies.\<close>

definition tech_bonus_one :: "counters \<Rightarrow> technology \<Rightarrow> counters" where
  "tech_bonus_one c tech =
     (let tech_name = lower (tech_name tech);
          c = (if tech_name \<in> set [''flask'', ''django'', ''express'', ''fastapi'', ''vue.js'',
                                      ''react'', ''angular'']
               then bump Web 10 c else c);
          c = (if sublist ''api'' tech_name
                  \<or> tech_name \<in> set [''graphql'', ''rest framework'', ''restful'']
               then bump Api 8 c else c);
          c = (if tech_name \<in> set [''click'', ''argparse'', ''commander'', ''yargs'', ''cobra'']
               then bump Cli 10 c else c);
          c = (if list_ex (\<lambda>db. sublist db tech_name)
                    [''sql'', ''mongo'', ''postgres'', ''mysql'', ''sqlite'', ''orm'']
               then bump Database 10 c else c);
          c = (if tech_name \<in> set [''tensorflow'', ''pytorch'', ''keras'', ''sklearn'', ''pandas'',
                                      ''numpy'']
               then bump Ai 10 c else c);
          c = (if tech_name \<in> set [''beautifulsoup'', ''selenium'', ''requests'', ''scrapy'',
                                      ''puppeteer'']
               then bump Scraping 10 c else c);
          c = (if tech_name \<in> set [''pytest'', ''jest'', ''mocha'', ''junit'', ''phpunit'']
               then bump Testing 8 c else c);
          c = (if tech_name \<in> set [''jwt'', ''passport'', ''oauth'', ''auth0'', ''authlib'']
               then bump Auth 8 c else c)
      in c)"

definition tech_bonus :: "technology list \<Rightarrow> counters \<Rightarrow> counters" where
  "tech_bonus techs c = foldl tech_bonus_one c techs"

text \<open>The counters after the sampled files alone, and after all three loops.\<close>

definition file_counters :: "string \<Rightarrow> fs_node list \<Rightarrow> counters option" where
  "file_counters project_path tree = scan_files (sampled_source_files project_path tree) initial_counters"

definition project_dirs_of :: "fs_node list \<Rightarrow> string list" where
  "project_dirs_of tree =
     map lower (case subdir tree ''src'' of Some entries \<Rightarrow> listdir entries | None \<Rightarrow> listdir tree)"

definition feature_counters :: "string \<Rightarrow> fs_node list \<Rightarrow> technology list \<Rightarrow> counters option" where
  "feature_counters project_path tree techs =
     map_option (\<lambda>c. tech_bonus techs (dir_bonus (project_dirs_of tree) c))
       (file_counters project_path tree)"

fun feature_descriptions :: "feature_type \<Rightarrow> string \<times> string" where
  "feature_descriptions Web =
     (''Web Application'', ''Provides a web interface for user interaction'')"
| "feature_descriptions Api =
     (''API'', ''Provides a programming interface for interaction with other systems'')"
| "feature_descriptions Cli =
     (''Command Line Interface'', ''Allows managing functionality through terminal commands'')"
| "feature_descriptions Database =
     (''Database Operations'', ''Storage and management of data in databases'')"
| "feature_descriptions Ai =
     (''Machine Learning/AI'', ''Uses machine learning or artificial intelligence algorithms'')"
| "feature_descriptions Scraping = (''Web Scraping'', ''Extraction of data from websites'')"
| "feature_descriptions Testing = (''Testing'', ''Contains automated code tests'')"
| "feature_descriptions Auth =
     (''Authentication and Authorization'', ''User management, access rights, and authentication'')"
| "feature_descriptions File_processing =
     (''File Processing'', ''Working with files of various formats'')"
| "feature_descriptions Async =
     (''Asynchronous Processing'', ''Uses asynchronous programming for parallel operations'')"

definition threshold :: "feature_type \<Rightarrow> nat" where
  "threshold feature_type = (if feature_type \<in> set [Web, Cli, Api] then 8 else 5)"

definition priority_of :: "nat \<Rightarrow> int" where
  "priority_of counter = (if counter \<ge> 15 then 5 else (if counter \<ge> 10 then 4 else 3))"

text \<open>One round of the loop \<^verbatim>\<open>for feature_type, counter in feature_counters.items()\<close>.\<close>

definition qualify :: "feature_type \<times> nat \<Rightarrow> feature list" where
  "qualify item =
     (case item of (feature_type, counter) \<Rightarrow>
        if counter \<ge> threshold feature_type
        then (case feature_descriptions feature_type of (name, description) \<Rightarrow>
                [\<lparr>feature_name = name, feature_description = description,
                  feature_category = type_key feature_type,
                  feature_priority = priority_of counter\<rparr>])
        else [])"

definition qualified_features :: "counters \<Rightarrow> feature list" where
  "qualified_features c = concat (map qualify c)"

text \<open>\<^verbatim>\<open>os.path.basename\<close>: the text after the last slash.\<close>

definition basename :: "string \<Rightarrow> string" where
  "basename p = rev (takeWhile (\<lambda>c. c \<noteq> CHR ''/'') (rev p))"

text \<open>The two rules on the name of the project directory.\<close>

definition name_features :: "string \<Rightarrow> feature list" where
  "name_features project_name_lower =
     (if sublist ''download'' project_name_lower \<or> sublist ''downloader'' project_name_lower
      then [\<lparr>feature_name = ''Content Download'',
             feature_description = ''Download files or content from external sources'',
             feature_category = ''download'', feature_priority = 5\<rparr>]
      else [])
     @ (if sublist ''youtube'' project_name_lower
        then [\<lparr>feature_name = ''YouTube Integration'',
               feature_description = ''Working with YouTube API or downloading content from YouTube'',
               feature_category = ''integration'', feature_priority = 5\<rparr>]
        else [])"

text \<open>
  \<^verbatim>\<open>s.replace(a, b)\<close> for single characters, \<^verbatim>\<open>s.split()\<close> (the maximal runs of characters
  that are not white space), \<^verbatim>\<open>s.capitalize()\<close> and \<^verbatim>\<open>' '.join(xs)\<close>.
\<close>

definition replace_char :: "char \<Rightarrow> char \<Rightarrow> string \<Rightarrow> string" where
  "replace_char a b s = map (\<lambda>c. if c = a then b else c) s"

fun words_from :: "string \<Rightarrow> string \<Rightarrow> string list" where
  "words_from cur [] = (if cur = [] then [] else [rev cur])"
| "words_from cur (c # cs) =
     (if is_space c then (if cur = [] then words_from [] cs else rev cur # words_from [] cs)
      else words_from (c # cur) cs)"

definition split_words :: "string \<Rightarrow> string list" where
  "split_words s = words_from [] s"

definition capitalize :: "string \<Rightarrow> string" where
  "capitalize s = (case s of [] \<Rightarrow> [] | c # cs \<Rightarrow> title_char c @ map lower_char cs)"

text \<open>A word whose capitalized form lies within the modelled code points.\<close>

definition capitalizable :: "string \<Rightarrow> bool" where
  "capitalizable w \<longleftrightarrow> (case w of [] \<Rightarrow> True | c # cs \<Rightarrow> title_in_range c)"

fun join_space :: "string list \<Rightarrow> string" where
  "join_space [] = []"
| "join_space [w] = w"
| "join_space (w # ws) = w @ '' '' @ join_space ws"

definition name_words :: "string \<Rightarrow> string list" where
  "name_words project_name_lower =
     split_words (replace_char (CHR ''_'') (CHR '' '') (replace_char (CHR ''-'') (CHR '' '') project_name_lower))"

text \<open>The body of \<^verbatim>\<open>if not features:\<close>.\<close>

definition generic_features :: "string \<Rightarrow> feature list" where
  "generic_features project_name_lower =
     (let words = name_words project_name_lower
      in if length words > 1
         then (let action_word = hd words;
                   subject_words = join_space (tl words)
               in [\<lparr>feature_name = capitalize action_word @ '' '' @ subject_words,
                     feature_description = ''Application for working with '' @ subject_words,
                     feature_category = ''general'', feature_priority = 3\<rparr>])
         else [])"

text \<open>The feature list from the final counters and the project path.\<close>

definition features_from :: "string \<Rightarrow> counters \<Rightarrow> feature list" where
  "features_from project_path c =
     (let features = qualified_features c;
          project_name_lower = lower (basename project_path);
          features = features @ name_features project_name_lower
      in if features = [] then features @ generic_features project_name_lower else features)"

definition detect_project_features :: "string \<Rightarrow> fs_node list \<Rightarrow> technology list \<Rightarrow> feature list option" where
  "detect_project_features project_path tree techs =
     map_option (features_from project_path) (feature_counters project_path tree techs)"

text \<open>
  The number of single-file keyword hits: the keywords of a list that occur in the text at
  least once. The number of occurrences of a keyword in a text counts every position at which
  the keyword starts.
\<close>

definition keyword_hits :: "feature_type \<Rightarrow> string \<Rightarrow> nat" where
  "keyword_hits t content = length (filter (\<lambda>indicator. sublist indicator content) (indicators t))"

fun occurrences :: "string \<Rightarrow> string \<Rightarrow> nat" where
  "occurrences k [] = (if k = [] then 1 else 0)"
| "occurrences k (c # cs) = (if prefix k (c # cs) then 1 else 0) + occurrences k cs"

text \<open>The sampled files that are scanned: their size is known and small, their text readable.\<close>

definition scanned_texts :: "fs_file list \<Rightarrow> string list" where
  "scanned_texts files =
     List.map_filter (\<lambda>file.
        case file_size file of
          None \<Rightarrow> None
        | Some sz \<Rightarrow> if sz > 100000 then None else map_option lower (file_content file))
       files"

text \<open>A counter, and all counters in dictionary order, of a scan that may have raised.\<close>

definition counter_of :: "feature_type \<Rightarrow> counters option \<Rightarrow> nat option" where
  "counter_of t result = map_option (\<lambda>c. count_of c t) result"

definition counter_values :: "counters option \<Rightarrow> nat list option" where
  "counter_values result = map_option (map snd) result"

definition web_feature :: "int \<Rightarrow> feature" where
  "web_feature priority =
     \<lparr>feature_name = ''Web Application'',
      feature_description = ''Provides a web interface for user interaction'',
      feature_category = ''web'', feature_priority = priority\<rparr>"

definition has_feature_named :: "string \<Rightarrow> feature list \<Rightarrow> bool" where
  "has_feature_named name fs \<longleftrightarrow> list_ex (\<lambda>f. feature_name f = name) fs"

text \<open>
  The counters are well formed when their keys are the ten feature types in the order of
  creation. A step on counters adds \<open>g t\<close> to the counter of every type \<open>t\<close> when it keeps
  well-formed counters well formed and changes the counts by exactly these amounts.
\<close>

definition keys_ok :: "counters \<Rightarrow> bool" where
  "keys_ok c \<longleftrightarrow> map fst c = feature_types"

definition adds :: "(counters \<Rightarrow> counters) \<Rightarrow> (feature_type \<Rightarrow> nat) \<Rightarrow> bool" where
  "adds step g \<longleftrightarrow>
     (\<forall>c. keys_ok c \<longrightarrow> keys_ok (step c) \<and> (\<forall>t. count_of (step c) t = count_of c t + g t))"

section \<open>Technology analyzer\<close>

subsection \<open>Files and directories below the project root\<close>

fun find_file :: "fs_node list \<Rightarrow> string \<Rightarrow> fs_file option" where
  "find_file [] name = None"
| "find_file (FsFile f # rest) name = (if file_name f = name then Some f else find_file rest name)"
| "find_file (FsDir n cs # rest) name = find_file rest name"

text \<open>
  The directory and the file at a path given by its components below the project root. A
  path with an empty component is not looked up.
\<close>

fun lookup_dir :: "fs_node list \<Rightarrow> string list \<Rightarrow> fs_node list option" where
  "lookup_dir tree [] = Some tree"
| "lookup_dir tree (d # ds) =
     (case subdir tree d of None \<Rightarrow> None | Some entries \<Rightarrow> lookup_dir entries ds)"

definition lookup_file :: "fs_node list \<Rightarrow> string list \<Rightarrow> fs_file option" where
  "lookup_file tree components =
     (if components = [] then None
      else (case lookup_dir tree (butlast components) of
              None \<Rightarrow> None
            | Some entries \<Rightarrow> find_file entries (last components)))"

text \<open>\<^verbatim>\<open>file_repository.file_exists(os.path.join(project_path, *components))\<close>\<close>

definition file_exists :: "fs_node list \<Rightarrow> string list \<Rightarrow> bool" where
  "file_exists tree components \<longleftrightarrow> lookup_file tree components \<noteq> None"

text \<open>\<^verbatim>\<open>os.path.isdir(os.path.join(project_path, *components))\<close>\<close>

definition is_dir :: "fs_node list \<Rightarrow> string list \<Rightarrow> bool" where
  "is_dir tree components \<longleftrightarrow> components \<noteq> [] \<and> lookup_dir tree components \<noteq> None"

text \<open>
  What the analyzer takes from outside its own code: the two configuration tables, the
  decoders of the manifest formats and the file-name matcher of the standard library.
  A decoder answers \<^const>\<open>None\<close> when the library raises. The model takes manifests that are
  well typed: dependency tables are dictionaries with string keys, scripts are strings.
\<close>

record package_json =
  pj_name :: string
  pj_dependencies :: "(string \<times> string) list"
  pj_dev_dependencies :: "(string \<times> string) list"
  pj_scripts :: "(string \<times> string) list"

record cargo_toml =
  cargo_name :: string
  cargo_dependencies :: "string list"
  cargo_dev_dependencies :: "string list"

record pom_dependency =
  pom_group :: string
  pom_artifact :: string

record environment =
  extensions_config :: "(string \<times> string) list"
  project_files_config :: "(string \<times> string) list"
  load_package_json :: "string \<Rightarrow> package_json option"
  load_poetry_dependencies :: "string \<Rightarrow> string list option option"
  load_cargo_toml :: "string \<Rightarrow> cargo_toml option"
  scan_pom_xml :: "string \<Rightarrow> pom_dependency list"
  fnmatch :: "string \<Rightarrow> string \<Rightarrow> bool"
  scan_imports :: "fs_file \<Rightarrow> (string \<times> string \<times> string) list"

text \<open>A table entry \<^verbatim>\<open>{"name": ..., "category": ..., "importance": ...}\<close>.\<close>

record tech_info =
  info_category :: string
  info_importance :: int
  info_name :: string

definition info :: "string \<Rightarrow> int \<Rightarrow> string \<Rightarrow> tech_info" where
  "info category importance name =
     \<lparr>info_category = category, info_importance = importance, info_name = name\<rparr>"

definition add_info :: "tech_data \<Rightarrow> tech_info \<Rightarrow> tech_data" where
  "add_info result lib_info =
     add_technology_if_not_exists result (info_category lib_info) (info_name lib_info)
       (info_importance lib_info)"

text \<open>\<^verbatim>\<open>{**a, **b}\<close>: the keys of \<open>a\<close> in order, then the new keys of \<open>b\<close>; \<open>b\<close> wins.\<close>

definition dict_merge :: "('k \<times> 'v) list \<Rightarrow> ('k \<times> 'v) list \<Rightarrow> ('k \<times> 'v) list" where
  "dict_merge a b = foldl (\<lambda>d (k, v). AList.update k v d) a b"

definition has_key :: "('k \<times> 'v) list \<Rightarrow> 'k \<Rightarrow> bool" where
  "has_key d k \<longleftrightarrow> map_of d k \<noteq> None"

subsection \<open>Ignore lists of the technology analyzer\<close>

text \<open>\<^verbatim>\<open>_is_ignored_dir(path)\<close>: some component of the path is an ignored name.\<close>

definition is_ignored_dir :: "string \<Rightarrow> bool" where
  "is_ignored_dir path \<longleftrightarrow>
     list_ex (\<lambda>ignored. ignored \<in> set (split_on (CHR ''/'') path)) ignored_dirs"

text \<open>\<^verbatim>\<open>_is_ignored_file(filename)\<close>: the name matches one of the ignore patterns.\<close>

definition is_ignored_file :: "environment \<Rightarrow> string \<Rightarrow> bool" where
  "is_ignored_file env filename \<longleftrightarrow> list_ex (\<lambda>pattern. fnmatch env filename pattern) ignored_files"

subsection \<open>Extension census\<close>

text \<open>\<^verbatim>\<open>s.lstrip('.')\<close>\<close>

definition lstrip_dots :: "string \<Rightarrow> string" where
  "lstrip_dots s = dropWhile (\<lambda>c. c = CHR ''.'') s"

text \<open>\<^verbatim>\<open>d[k] = d.get(k, 0) + n\<close>\<close>

definition dict_add :: "string \<Rightarrow> nat \<Rightarrow> (string \<times> nat) list \<Rightarrow> (string \<times> nat) list" where
  "dict_add k n d = AList.update k ((case map_of d k of None \<Rightarrow> 0 | Some m \<Rightarrow> m) + n) d"

definition extension_counts :: "environment \<Rightarrow> walk_entry list \<Rightarrow> (string \<times> nat) list" where
  "extension_counts env entries =
     foldl (\<lambda>counts e.
        if is_ignored_dir (walk_root e) then counts
        else foldl (\<lambda>counts f.
               if is_ignored_file env (file_name f) then counts
               else (let ext = lstrip_dots (splitext_ext (file_name f))
                     in if ext \<noteq> [] then dict_add ext 1 counts else counts))
             counts (walk_files e))
       [] entries"

definition language_counts :: "environment \<Rightarrow> (string \<times> nat) list \<Rightarrow> (string \<times> nat) list" where
  "language_counts env counts =
     foldl (\<lambda>languages (ext, n).
        case map_of (extensions_config env) ext of
          None \<Rightarrow> languages
        | Some language \<Rightarrow> dict_add language n languages)
       [] counts"

definition rank_importance :: "nat \<Rightarrow> int" where
  "rank_importance i = (if i = 0 then 5 else (if i = 1 then 4 else (if i < 4 then 3 else 2)))"

text \<open>
  \<^verbatim>\<open>_analyze_file_extensions\<close>: the languages, sorted by file count (descending, stable),
  are appended to the \<^verbatim>\<open>language\<close> list directly, without the registry's upsert.
\<close>

definition analyze_file_extensions :: "environment \<Rightarrow> string \<Rightarrow> fs_node list \<Rightarrow> tech_data \<Rightarrow> tech_data" where
  "analyze_file_extensions env project_path tree result =
     (let counts = extension_counts env (os_walk (\<lambda>_. True) project_path tree);
          languages = language_counts env counts;
          sorted_languages = sort_desc (\<lambda>x. int (snd x)) languages
      in foldl (\<lambda>result (i, (language, n)).
            AList.update ''language''
              (entries_of result ''language''
                 @ [\<lparr>entry_name = language, entry_count = Some n,
                      entry_importance = rank_importance i\<rparr>])
              result)
           result (enumerate 0 sorted_languages))"

subsection \<open>Package manifests\<close>

definition python_frameworks :: "(string \<times> tech_info) list" where
  "python_frameworks =
     [(''django'', info ''framework'' 5 ''Django''),
      (''flask'', info ''framework'' 5 ''Flask''),
      (''fastapi'', info ''framework'' 5 ''FastAPI''),
      (''tornado'', info ''framework'' 4 ''Tornado''),
      (''sanic'', info ''framework'' 4 ''Sanic''),
      (''pyramid'', info ''framework'' 4 ''Pyramid''),
      (''aiohttp'', info ''framework'' 4 ''AIOHTTP''),
      (''sqlalchemy'', info ''database'' 4 ''SQLAlchemy''),
      (''django-rest-framework'', info ''backend'' 4 ''Django REST Framework''),
      (''djangorestframework'', info ''backend'' 4 ''Django REST Framework''),
      (''alembic'', info ''database'' 3 ''Alembic''),
      (''pytest'', info ''testing'' 4 ''PyTest''),
      (''unittest'', info ''testing'' 3 ''unittest''),
      (''selenium'', info ''testing'' 3 ''Selenium''),
      (''behave'', info ''testing'' 3 ''Behave''),
      (''celery'', info ''backend'' 4 ''Celery''),
      (''redis'', info ''database'' 3 ''Redis''),
      (''pymongo'', info ''database'' 3 ''MongoDB (PyMongo)''),
      (''psycopg2'', info ''database'' 3 ''PostgreSQL''),
      (''psycopg2-binary'', info ''database'' 3 ''PostgreSQL''),
      (''pymysql'', info ''database'' 3 ''MySQL''),
      (''mysqlclient'', info ''database'' 3 ''MySQL'')]"

definition process_python_package :: "tech_data \<Rightarrow> package \<Rightarrow> tech_data" where
  "process_python_package result package =
     (let name = lower (pkg_name package);
          result = (case map_of python_frameworks name of
                      Some lib_info \<Rightarrow> add_info result lib_info
                    | None \<Rightarrow> result);
          result = (if prefix ''django'' name
                    then add_technology_if_not_exists result ''framework'' ''Django'' 5 else result);
          result = (if prefix ''flask'' name
                    then add_technology_if_not_exists result ''framework'' ''Flask'' 5 else result);
          result = (if name = ''fastapi''
                    then add_technology_if_not_exists result ''framework'' ''FastAPI'' 5 else result)
      in result)"

definition process_python_packages :: "package list \<Rightarrow> tech_data \<Rightarrow> tech_data" where
  "process_python_packages packages result =
     foldl process_python_package
       (add_technology_if_not_exists result ''language'' ''Python'' 5) packages"

record package_data =
  pd_name :: string
  pd_dependencies :: "(string \<times> string) list"
  pd_dev_dependencies :: "(string \<times> string) list"
  pd_scripts :: "(string \<times> string) list"
  pd_all_dependencies :: "(string \<times> string) list"

definition empty_package_data :: package_data where
  "empty_package_data =
     \<lparr>pd_name = '''', pd_dependencies = [], pd_dev_dependencies = [], pd_scripts = [],
      pd_all_dependencies = []\<rparr>"

text \<open>\<^verbatim>\<open>_parse_package_json\<close>: every failure gives the empty package data.\<close>

definition parse_package_json :: "environment \<Rightarrow> fs_file \<Rightarrow> package_data" where
  "parse_package_json env file =
     (case file_content file of
        None \<Rightarrow> empty_package_data
      | Some content \<Rightarrow>
          (case load_package_json env content of
             None \<Rightarrow> empty_package_data
           | Some data \<Rightarrow>
               \<lparr>pd_name = pj_name data, pd_dependencies = pj_dependencies data,
                pd_dev_dependencies = pj_dev_dependencies data, pd_scripts = pj_scripts data,
                pd_all_dependencies = dict_merge (pj_dependencies data) (pj_dev_dependencies data)\<rparr>))"

definition frontend_frameworks :: "(string \<times> tech_info) list" where
  "frontend_frameworks =
     [(''react'', info ''frontend'' 5 ''React''),
      (''vue'', info ''frontend'' 5 ''Vue.js''),
      (''angular'', info ''frontend'' 5 ''Angular''),
      (''svelte'', info ''frontend'' 5 ''Svelte''),
      (''next'', info ''frontend'' 5 ''Next.js''),
      (''nuxt'', info ''frontend'' 5 ''Nuxt.js''),
      (''gatsby'', info ''frontend'' 4 ''Gatsby''),
      (''@angular/core'', info ''frontend'' 5 ''Angular''),
      (''jquery'', info ''frontend'' 3 ''jQuery''),
      (''bootstrap'', info ''frontend'' 3 ''Bootstrap''),
      (''tailwindcss'', info ''frontend'' 4 ''Tailwind CSS'')]"

definition backend_frameworks :: "(string \<times> tech_info) list" where
  "backend_frameworks =
     [(''express'', info ''backend'' 5 ''Express.js''),
      (''koa'', info ''backend'' 5 ''Koa.js''),
      (''fastify'', info ''backend'' 4 ''Fastify''),
      (''nest'', info ''backend'' 5 ''NestJS''),
      (''@nestjs/core'', info ''backend'' 5 ''NestJS''),
      (''hapi'', info ''backend'' 4 ''Hapi.js''),
      (''feathers'', info ''backend'' 4 ''Feathers.js''),
      (''socket.io'', info ''backend'' 3 ''Socket.IO''),
      (''apollo-server'', info ''backend'' 4 ''Apollo Server'')]"

definition database_libs :: "(string \<times> tech_info) list" where
  "database_libs =
     [(''mongoose'', info ''database'' 4 ''MongoDB (Mongoose)''),
      (''mongodb'', info ''database'' 4 ''MongoDB''),
      (''sequelize'', info ''database'' 4 ''SQL (Sequelize)''),
      (''typeorm'', info ''database'' 4 ''TypeORM''),
      (''prisma'', info ''database'' 4 ''Prisma''),
      (''pg'', info ''database'' 3 ''PostgreSQL''),
      (''mysql'', info ''database'' 3 ''MySQL''),
      (''sqlite3'', info ''database'' 3 ''SQLite''),
      (''redis'', info ''database'' 3 ''Redis'')]"

definition testing_libs :: "(string \<times> tech_info) list" where
  "testing_libs =
     [(''jest'', info ''testing'' 4 ''Jest''),
      (''mocha'', info ''testing'' 4 ''Mocha''),
      (''chai'', info ''testing'' 3 ''Chai''),
      (''jasmine'', info ''testing'' 3 ''Jasmine''),
      (''karma'', info ''testing'' 3 ''Karma''),
      (''enzyme'', info ''testing'' 3 ''Enzyme''),
      (''@testing-library/react'', info ''testing'' 3 ''React Testing Library''),
      (''cypress'', info ''testing'' 4 ''Cypress''),
      (''selenium-webdriver'', info ''testing'' 3 ''Selenium'')]"

definition devops_libs :: "(string \<times> tech_info) list" where
  "devops_libs =
     [(''webpack'', info ''devops'' 4 ''Webpack''),
      (''babel'', info ''devops'' 3 ''Babel''),
      (''@babel/core'', info ''devops'' 3 ''Babel''),
      (''gulp'', info ''devops'' 3 ''Gulp''),
      (''grunt'', info ''devops'' 3 ''Grunt''),
      (''eslint'', info ''devops'' 3 ''ESLint''),
      (''prettier'', info ''devops'' 3 ''Prettier''),
      (''typescript'', info ''language'' 5 ''TypeScript''),
      (''ts-node'', info ''devops'' 3 ''ts-node''),
      (''vite'', info ''devops'' 4 ''Vite'')]"

definition all_libs :: "(string \<times> tech_info) list" where
  "all_libs =
     dict_merge (dict_merge (dict_merge (dict_merge frontend_frameworks backend_frameworks)
       database_libs) testing_libs) devops_libs"

text \<open>
  The loop of \<^verbatim>\<open>_process_js_packages\<close> over the dependencies; the state is the registry
  with the flags \<^verbatim>\<open>is_frontend\<close> and \<^verbatim>\<open>is_backend\<close>.
\<close>

definition process_js_dependency ::
  "tech_data \<times> bool \<times> bool \<Rightarrow> string \<times> string \<Rightarrow> tech_data \<times> bool \<times> bool" where
  "process_js_dependency state dependency =
     (case state of (result, is_frontend, is_backend) \<Rightarrow>
      case dependency of (lib, version) \<Rightarrow>
        (let lib_name = (if prefix ''@'' lib then last (split_on (CHR ''/'') lib) else lib);
             result = (case map_of all_libs lib of
                         Some lib_info \<Rightarrow> add_info result lib_info
                       | None \<Rightarrow> result);
             is_frontend = (if has_key frontend_frameworks lib \<or> has_key frontend_frameworks lib_name
                            then True else is_frontend);
             is_backend = (if has_key backend_frameworks lib \<or> has_key backend_frameworks lib_name
                           then True else is_backend)
         in (result, is_frontend, is_backend)))"

text \<open>\<^verbatim>\<open>key in scripts and word in scripts[key]\<close>\<close>

definition script_mentions :: "(string \<times> string) list \<Rightarrow> string \<Rightarrow> string \<Rightarrow> bool" where
  "script_mentions scripts key word \<longleftrightarrow>
     (case map_of scripts key of None \<Rightarrow> False | Some command \<Rightarrow> sublist word command)"

definition process_js_packages :: "package_data \<Rightarrow> tech_data \<Rightarrow> tech_data" where
  "process_js_packages package_data result =
     (let deps = pd_all_dependencies package_data;
          result = add_technology_if_not_exists result ''language'' ''JavaScript'' 5;
          result = (if has_key deps ''typescript'' \<or> has_key deps ''ts-node''
                       \<or> has_key (pd_scripts package_data) ''tsc''
                    then add_technology_if_not_exists result ''language'' ''TypeScript'' 5
                    else result);
          state = foldl process_js_dependency (result, False, False) deps;
          result = fst state;
          is_frontend = fst (snd state);
          is_backend = snd (snd state);
          result = (if is_frontend \<and> is_backend
                    then add_technology_if_not_exists result ''other'' ''Fullstack JavaScript'' 4
                    else result);
          result = (if has_key deps ''react'' \<or> has_key deps ''react-dom''
                    then add_technology_if_not_exists result ''frontend'' ''React'' 5 else result);
          result = (if has_key deps ''react-native''
                    then add_technology_if_not_exists result ''framework'' ''React Native'' 5
                    else result);
          scripts = pd_scripts package_data
      in if scripts \<noteq> []
         then (let result = (if script_mentions scripts ''build'' ''react-scripts''
                                \<or> script_mentions scripts ''build'' ''next''
                             then add_technology_if_not_exists result ''frontend'' ''React'' 5
                             else result);
                   result = (if script_mentions scripts ''dev'' ''next''
                             then add_technology_if_not_exists result ''frontend'' ''Next.js'' 5
                             else result);
                   result = (if script_mentions scripts ''dev'' ''nuxt''
                             then add_technology_if_not_exists result ''frontend'' ''Nuxt.js'' 5
                             else result);
                   result = (if script_mentions scripts ''start'' ''electron''
                             then add_technology_if_not_exists result ''framework'' ''Electron'' 4
                             else result)
               in result)
         else result)"

definition rust_frameworks :: "(string \<times> tech_info) list" where
  "rust_frameworks =
     [(''actix-web'', info ''backend'' 5 ''Actix Web''),
      (''rocket'', info ''backend'' 5 ''Rocket''),
      (''warp'', info ''backend'' 4 ''Warp''),
      (''axum'', info ''backend'' 4 ''Axum''),
      (''tide'', info ''backend'' 4 ''Tide''),
      (''tokio'', info ''backend'' 4 ''Tokio''),
      (''async-std'', info ''backend'' 4 ''async-std''),
      (''diesel'', info ''database'' 4 ''Diesel ORM''),
      (''sqlx'', info ''database'' 4 ''SQLx''),
      (''rusqlite'', info ''database'' 3 ''Rusqlite''),
      (''serde'', info ''other'' 3 ''Serde''),
      (''reqwest'', info ''backend'' 3 ''Reqwest''),
      (''hyper'', info ''backend'' 3 ''Hyper''),
      (''clap'', info ''other'' 3 ''Clap CLI''),
      (''yew'', info ''frontend'' 5 ''Yew''),
      (''leptos'', info ''frontend'' 5 ''Leptos''),
      (''dioxus'', info ''frontend'' 4 ''Dioxus''),
      (''tauri'', info ''framework'' 5 ''Tauri''),
      (''bevy'', info ''framework'' 5 ''Bevy Engine''),
      (''amethyst'', info ''framework'' 4 ''Amethyst Engine'')]"

text \<open>
  \<^verbatim>\<open>_parse_cargo_toml\<close> and \<^verbatim>\<open>_process_rust_packages\<close>: only the names of the dependencies
  are used; the merged dictionary lists those of \<^verbatim>\<open>dependencies\<close>, then the new ones of
  \<^verbatim>\<open>dev-dependencies\<close>.
\<close>

definition cargo_all_dependencies :: "environment \<Rightarrow> fs_file \<Rightarrow> string list" where
  "cargo_all_dependencies env file =
     (case file_content file of
        None \<Rightarrow> []
      | Some content \<Rightarrow>
          (case load_cargo_toml env content of
             None \<Rightarrow> []
           | Some data \<Rightarrow>
               cargo_dependencies data
               @ filter (\<lambda>k. k \<notin> set (cargo_dependencies data)) (cargo_dev_dependencies data)))"

definition process_rust_packages :: "string list \<Rightarrow> tech_data \<Rightarrow> tech_data" where
  "process_rust_packages dependencies result =
     foldl (\<lambda>result lib_name.
        case map_of rust_frameworks lib_name of
          Some lib_info \<Rightarrow> add_info result lib_info
        | None \<Rightarrow> result)
       (add_technology_if_not_exists result ''language'' ''Rust'' 5) dependencies"

definition java_framework_map :: "(string \<times> tech_info) list" where
  "java_framework_map =
     [(''org.springframework.boot'', info ''framework'' 5 ''Spring Boot''),
      (''org.springframework'', info ''framework'' 5 ''Spring Framework''),
      (''jakarta.servlet'', info ''framework'' 4 ''Jakarta EE''),
      (''javax.servlet'', info ''framework'' 4 ''Java EE''),
      (''org.hibernate'', info ''database'' 4 ''Hibernate''),
      (''javax.persistence'', info ''database'' 4 ''JPA''),
      (''jakarta.persistence'', info ''database'' 4 ''JPA''),
      (''org.mybatis'', info ''database'' 4 ''MyBatis''),
      (''mysql'', info ''database'' 3 ''MySQL''),
      (''org.postgresql'', info ''database'' 3 ''PostgreSQL''),
      (''com.h2database'', info ''database'' 3 ''H2 Database''),
      (''org.junit'', info ''testing'' 3 ''JUnit''),
      (''org.mockito'', info ''testing'' 3 ''Mockito''),
      (''org.testng'', info ''testing'' 3 ''TestNG''),
      (''io.cucumber'', info ''testing'' 3 ''Cucumber''),
      (''org.seleniumhq.selenium'', info ''testing'' 3 ''Selenium''),
      (''com.squareup.retrofit2'', info ''backend'' 3 ''Retrofit''),
      (''com.squareup.okhttp3'', info ''backend'' 3 ''OkHttp''),
      (''io.micronaut'', info ''framework'' 5 ''Micronaut''),
      (''io.quarkus'', info ''framework'' 5 ''Quarkus''),
      (''io.vertx'', info ''framework'' 4 ''Vert.x'')]"

definition spring_boot_starters :: "(string \<times> tech_info) list" where
  "spring_boot_starters =
     [(''spring-boot-starter-web'', info ''backend'' 4 ''Spring MVC''),
      (''spring-boot-starter-webflux'', info ''backend'' 4 ''Spring WebFlux''),
      (''spring-boot-starter-data-jpa'', info ''database'' 4 ''Spring Data JPA''),
      (''spring-boot-starter-data-mongodb'', info ''database'' 4 ''Spring Data MongoDB''),
      (''spring-boot-starter-data-redis'', info ''database'' 4 ''Spring Data Redis''),
      (''spring-boot-starter-security'', info ''backend'' 4 ''Spring Security''),
      (''spring-boot-starter-test'', info ''testing'' 3 ''Spring Testing''),
      (''spring-boot-starter-actuator'', info ''devops'' 3 ''Spring Actuator''),
      (''spring-boot-starter-thymeleaf'', info ''frontend'' 4 ''Thymeleaf''),
      (''spring-boot-starter-freemarker'', info ''frontend'' 4 ''FreeMarker'')]"

definition process_java_dependency :: "tech_data \<Rightarrow> pom_dependency \<Rightarrow> tech_data" where
  "process_java_dependency result dependency =
     (let group = pom_group dependency;
          artifact = pom_artifact dependency
      in if group = ''org.springframework.boot'' \<and> prefix ''spring-boot-starter'' artifact
         then (case map_of spring_boot_starters artifact of
                 Some starter_info \<Rightarrow> add_info result starter_info
               | None \<Rightarrow> result)
         else (case find (\<lambda>(lib_prefix, lib_info). prefix lib_prefix group) java_framework_map of
                 Some (lib_prefix, lib_info) \<Rightarrow> add_info result lib_info
               | None \<Rightarrow> result))"

definition process_java_packages :: "pom_dependency list \<Rightarrow> tech_data \<Rightarrow> tech_data" where
  "process_java_packages dependencies result =
     foldl process_java_dependency
       (add_technology_if_not_exists result ''language'' ''Java'' 5) dependencies"

text \<open>
  \<^verbatim>\<open>_analyze_package_files\<close>. The read of build.gradle stands outside any \<^verbatim>\<open>try\<close> block:
  when it raises, the exception leaves the analyzer (\<^const>\<open>None\<close>).
\<close>

definition analyze_poetry :: "environment \<Rightarrow> fs_file \<Rightarrow> tech_data \<Rightarrow> tech_data" where
  "analyze_poetry env file result =
     (case file_content file of
        None \<Rightarrow> result
      | Some content \<Rightarrow>
          (case load_poetry_dependencies env content of
             None \<Rightarrow> result
           | Some None \<Rightarrow> result
           | Some (Some poetry_deps) \<Rightarrow>
               foldl (\<lambda>result dep_name.
                  if lower dep_name = ''django''
                  then add_technology_if_not_exists result ''framework'' ''Django'' 5
                  else if lower dep_name = ''flask''
                  then add_technology_if_not_exists result ''framework'' ''Flask'' 5
                  else if lower dep_name = ''fastapi''
                  then add_technology_if_not_exists result ''framework'' ''FastAPI'' 5
                  else result)
                 (add_technology_if_not_exists result ''devops'' ''Poetry'' 3) poetry_deps))"

definition analyze_gradle :: "string \<Rightarrow> tech_data \<Rightarrow> tech_data" where
  "analyze_gradle content result =
     (let result = (if sublist ''kotlin'' (lower content)
                    then add_technology_if_not_exists result ''language'' ''Kotlin'' 5
                    else add_technology_if_not_exists result ''language'' ''Java'' 5);
          result = (if sublist ''org.springframework.boot'' content
                    then add_technology_if_not_exists result ''framework'' ''Spring Boot'' 5
                    else result);
          result = (if sublist ''org.springframework'' content
                       \<and> \<not> sublist ''org.springframework.boot'' content
                    then add_technology_if_not_exists result ''framework'' ''Spring Framework'' 5
                    else result)
      in result)"

definition analyze_package_files :: "environment \<Rightarrow> fs_node list \<Rightarrow> tech_data \<Rightarrow> tech_data option" where
  "analyze_package_files env tree result =
     (let result = (case find_file tree ''requirements.txt'' of
                      Some file \<Rightarrow>
                        process_python_packages (parse_requirements_txt (file_content file)) result
                    | None \<Rightarrow> result);
          result = (if find_file tree ''setup.py'' \<noteq> None
                    then add_technology_if_not_exists result ''language'' ''Python'' 5 else result);
          result = (case find_file tree ''pyproject.toml'' of
                      Some file \<Rightarrow>
                        analyze_poetry env file
                          (add_technology_if_not_exists result ''language'' ''Python'' 5)
                    | None \<Rightarrow> result);
          result = (case find_file tree ''package.json'' of
                      Some file \<Rightarrow> process_js_packages (parse_package_json env file) result
                    | None \<Rightarrow> result);
          result = (case find_file tree ''Cargo.toml'' of
                      Some file \<Rightarrow> process_rust_packages (cargo_all_dependencies env file) result
                    | None \<Rightarrow> result);
          result = (case find_file tree ''pom.xml'' of
                      Some file \<Rightarrow>
                        add_technology_if_not_exists
                          (process_java_packages
                             (case file_content file of
                                None \<Rightarrow> []
                              | Some content \<Rightarrow> scan_pom_xml env content)
                             result)
                          ''devops'' ''Maven'' 3
                    | None \<Rightarrow> result);
          gradle = (case find_file tree ''build.gradle'' of
                      Some file \<Rightarrow>
                        map_option
                          (\<lambda>content. analyze_gradle content
                             (add_technology_if_not_exists result ''devops'' ''Gradle'' 3))
                          (file_content file)
                    | None \<Rightarrow> Some result)
      in map_option
           (\<lambda>result.
              if find_file tree ''build.gradle.kts'' \<noteq> None
              then add_technology_if_not_exists
                     (add_technology_if_not_exists result ''language'' ''Kotlin'' 5)
                     ''devops'' ''Gradle'' 3
              else result)
           gradle)"

subsection \<open>Marker files, DevOps tools and framework directories\<close>

definition determine_technology_category :: "string \<Rightarrow> string" where
  "determine_technology_category technology =
     (let frontend_techs = [''Angular'', ''React'', ''Vue.js'', ''Next.js'', ''Gatsby'', ''Svelte'',
            ''HTML'', ''CSS'', ''SASS'', ''LESS'', ''Bootstrap'', ''Tailwind'', ''Blazor WebAssembly''];
          backend_techs = [''Express'', ''Django'', ''Flask'', ''FastAPI'', ''Spring'', ''ASP.NET Core'',
            ''Laravel'', ''Rails''];
          database_techs = [''MongoDB'', ''MySQL'', ''PostgreSQL'', ''SQLite'', ''Redis'',
            ''Entity Framework'', ''Hibernate'', ''SQL Server''];
          devops_techs = [''Docker'', ''Kubernetes'', ''Travis CI'', ''Jenkins'', ''GitHub Actions'',
            ''GitLab CI'', ''Terraform'', ''Ansible'', ''AWS'', ''Azure'', ''GCP''];
          testing_techs = [''Jest'', ''Mocha'', ''Cypress'', ''Selenium'', ''JUnit'', ''xUnit'', ''NUnit'',
            ''PyTest''];
          framework_techs = [''Android'', ''iOS'', ''.NET Core'', ''Spring Boot'', ''ASP.NET Core'',
            ''Flutter'', ''React Native''];
          technology_lower = lower technology
      in if list_ex (\<lambda>tech. sublist (lower tech) technology_lower) frontend_techs then ''frontend''
         else if list_ex (\<lambda>tech. sublist (lower tech) technology_lower) backend_techs then ''backend''
         else if list_ex (\<lambda>tech. sublist (lower tech) technology_lower) database_techs then ''database''
         else if list_ex (\<lambda>tech. sublist (lower tech) technology_lower) devops_techs then ''devops''
         else if list_ex (\<lambda>tech. sublist (lower tech) technology_lower) testing_techs then ''testing''
         else if list_ex (\<lambda>tech. sublist (lower tech) technology_lower) framework_techs then ''framework''
         else ''other'')"

definition add_marker :: "tech_data \<Rightarrow> string \<Rightarrow> tech_data" where
  "add_marker result technology =
     add_technology_if_not_exists result (determine_technology_category technology) technology 3"

text \<open>
  The components of a configured path. \<^verbatim>\<open>os.path.join\<close> and the file system skip empty
  components; a path that ends in a slash names no file; a path that starts with a slash
  names a directory outside the project, which the model does not contain.
\<close>

definition pattern_components :: "string \<Rightarrow> string list" where
  "pattern_components file_pattern = filter (\<lambda>part. part \<noteq> []) (split_on (CHR ''/'') file_pattern)"

definition configured_file_exists :: "fs_node list \<Rightarrow> string \<Rightarrow> bool" where
  "configured_file_exists tree file_pattern \<longleftrightarrow>
     \<not> suffix ''/'' file_pattern \<and> file_exists tree (pattern_components file_pattern)"

definition configured_dir_exists :: "fs_node list \<Rightarrow> string \<Rightarrow> bool" where
  "configured_dir_exists tree file_pattern \<longleftrightarrow>
     \<not> prefix ''/'' file_pattern \<and> is_dir tree (pattern_components file_pattern)"

text \<open>The bounded walk for a glob pattern: some file of a directory that is not ignored matches.\<close>

definition glob_found :: "environment \<Rightarrow> walk_entry list \<Rightarrow> string \<Rightarrow> bool" where
  "glob_found env entries file_pattern \<longleftrightarrow>
     list_ex (\<lambda>e. \<not> is_ignored_dir (walk_root e)
                  \<and> list_ex (\<lambda>f. fnmatch env (lower (file_name f)) (lower file_pattern)) (walk_files e))
       entries"

definition check_config_pattern ::
  "environment \<Rightarrow> string \<Rightarrow> fs_node list \<Rightarrow> tech_data \<Rightarrow> string \<times> string \<Rightarrow> tech_data" where
  "check_config_pattern env project_path tree result item =
     (case item of (file_pattern, technology) \<Rightarrow>
        if CHR ''*'' \<in> set file_pattern \<or> CHR ''?'' \<in> set file_pattern
        then (if glob_found env (os_walk (\<lambda>_. True) project_path tree) file_pattern
              then add_marker result technology else result)
        else if CHR ''/'' \<in> set file_pattern
        then (if configured_file_exists tree file_pattern \<or> configured_dir_exists tree file_pattern
              then add_marker result technology else result)
        else (let result = (if find_file tree file_pattern \<noteq> None
                            then add_marker result technology else result);
                  result = (if prefix ''.'' file_pattern
                            then (let file_no_dot = tl file_pattern
                                  in if find_file tree file_no_dot \<noteq> None
                                     then add_marker result technology else result)
                            else result)
              in result))"

definition check_devops_tools :: "fs_node list \<Rightarrow> tech_data \<Rightarrow> tech_data" where
  "check_devops_tools tree result =
     (let exists = (\<lambda>name. find_file tree name \<noteq> None);
          result = (if exists ''Dockerfile'' \<or> exists ''docker-compose.yml''
                       \<or> exists ''docker-compose.yaml''
                    then add_technology_if_not_exists result ''devops'' ''Docker'' 4 else result);
          result = (if list_ex exists [''kubernetes.yaml'', ''kubernetes.yml'', ''k8s.yaml'',
                         ''k8s.yml'', ''deployment.yaml'', ''service.yaml'']
                    then add_technology_if_not_exists result ''devops'' ''Kubernetes'' 4 else result);
          result = (if is_dir tree [''helm''] \<or> is_dir tree [''charts'']
                    then add_technology_if_not_exists result ''devops'' ''Helm'' 3 else result);
          result = (if is_dir tree [''.github'', ''workflows'']
                    then add_technology_if_not_exists result ''devops'' ''GitHub Actions'' 3
                    else if exists ''.gitlab-ci.yml'' \<or> exists ''.gitlab-ci.yaml''
                    then add_technology_if_not_exists result ''devops'' ''GitLab CI'' 3
                    else if exists ''.travis.yml'' \<or> exists ''.travis.yaml''
                    then add_technology_if_not_exists result ''devops'' ''Travis CI'' 3
                    else if exists ''Jenkinsfile''
                    then add_technology_if_not_exists result ''devops'' ''Jenkins'' 3
                    else if exists ''azure-pipelines.yml'' \<or> exists ''azure-pipelines.yaml''
                    then add_technology_if_not_exists result ''devops'' ''Azure Pipelines'' 3
                    else if exists ''appveyor.yml'' \<or> exists ''appveyor.yaml''
                    then add_technology_if_not_exists result ''devops'' ''AppVeyor'' 3
                    else if exists ''buildspec.yml'' \<or> exists ''buildspec.yaml''
                    then add_technology_if_not_exists result ''devops'' ''AWS CodeBuild'' 3
                    else result);
          result = (if list_ex exists [''main.tf'', ''variables.tf'', ''terraform.tf'']
                    then add_technology_if_not_exists result ''devops'' ''Terraform'' 4 else result);
          result = (if exists ''ansible.cfg'' \<or> is_dir tree [''roles'']
                       \<or> list_ex exists [''playbook.yml'', ''playbook.yaml'', ''inventory.ini'', ''hosts'']
                    then add_technology_if_not_exists result ''devops'' ''Ansible'' 4 else result);
          result = (if exists ''pulumi.yaml'' \<or> exists ''Pulumi.yaml''
                    then add_technology_if_not_exists result ''devops'' ''Pulumi'' 4 else result)
      in result)"

definition directory_to_tech :: "(string \<times> tech_info) list" where
  "directory_to_tech =
     [(''node_modules'', info ''language'' 3 ''Node.js''),
      (''vendor'', info ''devops'' 3 ''Composer (PHP)''),
      (''migrations'', info ''database'' 3 ''Database Migrations''),
      (''controllers'', info ''architecture'' 3 ''MVC Architecture''),
      (''views'', info ''architecture'' 3 ''MVC Architecture''),
      (''models'', info ''architecture'' 3 ''MVC Architecture''),
      (''templates'', info ''frontend'' 3 ''Template Engine''),
      (''components'', info ''frontend'' 3 ''Component-based Framework''),
      (''pages'', info ''frontend'' 3 ''Page-based Framework''),
      (''routes'', info ''backend'' 3 ''Routing''),
      (''middlewares'', info ''backend'' 3 ''Middleware Pattern''),
      (''middleware'', info ''backend'' 3 ''Middleware Pattern''),
      (''hooks'', info ''framework'' 3 ''Hook System''),
      (''services'', info ''architecture'' 3 ''Service Layer''),
      (''repositories'', info ''architecture'' 3 ''Repository Pattern''),
      (''providers'', info ''architecture'' 3 ''Provider Pattern''),
      (''tests'', info ''testing'' 3 ''Automated Tests''),
      (''test'', info ''testing'' 3 ''Automated Tests''),
      (''spec'', info ''testing'' 3 ''Automated Tests''),
      (''scripts'', info ''devops'' 2 ''Script Collection''),
      (''docs'', info ''other'' 2 ''Documentation''),
      (''artifacts'', info ''devops'' 2 ''Build Artifacts''),
      (''dist'', info ''devops'' 2 ''Distribution''),
      (''build'', info ''devops'' 2 ''Build Output''),
      (''bin'', info ''devops'' 2 ''Binaries''),
      (''obj'', info ''devops'' 2 ''.NET Object Files''),
      (''packages'', info ''devops'' 2 ''Package Management''),
      (''modules'', info ''architecture'' 2 ''Module System''),
      (''api'', info ''backend'' 3 ''API''),
      (''public'', info ''frontend'' 2 ''Public Assets''),
      (''static'', info ''frontend'' 2 ''Static Assets''),
      (''assets'', info ''frontend'' 2 ''Asset Files''),
      (''styles'', info ''frontend'' 2 ''CSS Styles''),
      (''images'', info ''frontend'' 2 ''Image Files''),
      (''fonts'', info ''frontend'' 2 ''Font Files''),
      (''config'', info ''devops'' 2 ''Configuration''),
      (''configs'', info ''devops'' 2 ''Configuration''),
      (''configuration'', info ''devops'' 2 ''Configuration''),
      (''environments'', info ''devops'' 2 ''Environment Config'')]"

text \<open>
  \<^verbatim>\<open>s.replace(old, '')\<close>: every occurrence of \<open>old\<close> is removed, scanning from the left;
  an empty \<open>old\<close> removes nothing. \<^verbatim>\<open>s.strip('/')\<close> removes the slashes at both ends.
\<close>

fun remove_all :: "string \<Rightarrow> string \<Rightarrow> string" where
  "remove_all old [] = []"
| "remove_all old (c # cs) =
     (if old \<noteq> [] \<and> prefix old (c # cs) then remove_all old (drop (length old) (c # cs))
      else c # remove_all old cs)"

definition strip_slashes :: "string \<Rightarrow> string" where
  "strip_slashes s =
     rev (dropWhile (\<lambda>c. c = CHR ''/'') (rev (dropWhile (\<lambda>c. c = CHR ''/'') s)))"

text \<open>\<^verbatim>\<open>len(root.replace(project_path, '').strip(os.path.sep).split(os.path.sep))\<close>\<close>

definition root_depth :: "string \<Rightarrow> string \<Rightarrow> nat" where
  "root_depth project_path root =
     length (split_on (CHR ''/'') (strip_slashes (remove_all project_path root)))"

definition check_directory_name :: "tech_data \<Rightarrow> string \<Rightarrow> tech_data" where
  "check_directory_name result dir_name =
     (let dir_name_lower = lower dir_name
      in if prefix ''.'' dir_name_lower then result
         else
           (let result = (case map_of directory_to_tech dir_name_lower of
                            Some tech_info \<Rightarrow> add_info result tech_info
                          | None \<Rightarrow> result)
            in if dir_name_lower = ''angular''
               then add_technology_if_not_exists result ''frontend'' ''Angular'' 4
               else if dir_name_lower = ''react''
               then add_technology_if_not_exists result ''frontend'' ''React'' 4
               else if dir_name_lower = ''vue''
               then add_technology_if_not_exists result ''frontend'' ''Vue.js'' 4
               else if dir_name_lower = ''django''
               then add_technology_if_not_exists result ''framework'' ''Django'' 4
               else if dir_name_lower = ''flask''
               then add_technology_if_not_exists result ''framework'' ''Flask'' 4
               else if dir_name_lower = ''spring''
               then add_technology_if_not_exists result ''framework'' ''Spring'' 4
               else if dir_name_lower = ''laravel''
               then add_technology_if_not_exists result ''framework'' ''Laravel'' 4
               else if dir_name_lower = ''express''
               then add_technology_if_not_exists result ''backend'' ''Express.js'' 4
               else if dir_name_lower = ''react-native''
               then add_technology_if_not_exists result ''framework'' ''React Native'' 4
               else if dir_name_lower = ''flutter''
               then add_technology_if_not_exists result ''framework'' ''Flutter'' 4
               else result))"

definition check_framework_directories :: "string \<Rightarrow> fs_node list \<Rightarrow> tech_data \<Rightarrow> tech_data" where
  "check_framework_directories project_path tree result =
     foldl (\<lambda>result e.
        if root_depth project_path (walk_root e) > 2 then result
        else if is_ignored_dir (walk_root e) then result
        else foldl check_directory_name result (walk_dirs e))
       result (os_walk (\<lambda>_. True) project_path tree)"

definition analyze_config_files ::
  "environment \<Rightarrow> string \<Rightarrow> fs_node list \<Rightarrow> tech_data \<Rightarrow> tech_data" where
  "analyze_config_files env project_path tree result =
     check_framework_directories project_path tree
       (check_devops_tools tree
          (foldl (check_config_pattern env project_path tree) result (project_files_config env)))"

subsection \<open>Project files\<close>

text \<open>All files of the project whose name ends with the given text, in walk order.\<close>

definition files_ending :: "string \<Rightarrow> walk_entry list \<Rightarrow> fs_file list" where
  "files_ending ending entries =
     concat (map (\<lambda>e. filter (\<lambda>f. suffix ending (file_name f)) (walk_files e)) entries)"

definition analyze_csproj :: "tech_data \<Rightarrow> fs_file \<Rightarrow> tech_data" where
  "analyze_csproj result file =
     (case file_content file of
        None \<Rightarrow> result
      | Some content \<Rightarrow>
          (let result = (if sublist ''Microsoft.AspNetCore.App'' content
                            \<or> sublist ''Microsoft.AspNetCore'' content
                         then add_technology_if_not_exists result ''framework'' ''ASP.NET Core'' 5
                         else result);
               result = (if sublist ''Microsoft.EntityFrameworkCore'' content
                         then add_technology_if_not_exists result ''database'' ''Entity Framework Core'' 4
                         else result);
               result = (if sublist ''Microsoft.AspNetCore.Mvc'' content
                         then add_technology_if_not_exists result ''backend'' ''ASP.NET Core MVC'' 4
                         else result);
               result = (if sublist ''Microsoft.AspNetCore.Components.WebAssembly'' content
                         then add_technology_if_not_exists result ''frontend'' ''Blazor WebAssembly'' 4
                         else if sublist ''Microsoft.AspNetCore.Components.Web'' content
                         then add_technology_if_not_exists result ''frontend'' ''Blazor'' 4
                         else result);
               result = (if sublist ''xunit'' (lower content)
                         then add_technology_if_not_exists result ''testing'' ''xUnit'' 3 else result);
               result = (if sublist ''nunit'' (lower content)
                         then add_technology_if_not_exists result ''testing'' ''NUnit'' 3 else result);
               result = (if sublist ''mstest'' (lower content)
                         then add_technology_if_not_exists result ''testing'' ''MSTest'' 3 else result)
           in result))"

definition analyze_dotnet_projects :: "string \<Rightarrow> fs_node list \<Rightarrow> tech_data \<Rightarrow> tech_data" where
  "analyze_dotnet_projects project_path tree result =
     (let entries = os_walk (\<lambda>_. True) project_path tree;
          csproj_files = files_ending ''.csproj'' entries;
          result = (if csproj_files \<noteq> []
                    then foldl analyze_csproj
                           (add_technology_if_not_exists
                              (add_technology_if_not_exists result ''language'' ''C#'' 5)
                              ''devops'' ''.NET'' 4)
                           csproj_files
                    else result);
          result = (if files_ending ''.fsproj'' entries \<noteq> []
                    then add_technology_if_not_exists
                           (add_technology_if_not_exists result ''language'' ''F#'' 5)
                           ''devops'' ''.NET'' 4
                    else result);
          result = (if files_ending ''.vbproj'' entries \<noteq> []
                    then add_technology_if_not_exists
                           (add_technology_if_not_exists result ''language'' ''Visual Basic'' 5)
                           ''devops'' ''.NET'' 4
                    else result)
      in result)"

text \<open>
  \<^verbatim>\<open>_analyze_cpp_projects\<close> and \<^verbatim>\<open>_analyze_android_projects\<close> read a file outside any
  \<^verbatim>\<open>try\<close> block; \<^const>\<open>None\<close> is the exception leaving the analyzer.
\<close>

definition analyze_cpp_projects :: "fs_node list \<Rightarrow> tech_data \<Rightarrow> tech_data option" where
  "analyze_cpp_projects tree result =
     map_option
       (\<lambda>result. if find_file tree ''Makefile'' \<noteq> None
                  then add_technology_if_not_exists result ''devops'' ''Make'' 4 else result)
       (case find_file tree ''CMakeLists.txt'' of
          None \<Rightarrow> Some result
        | Some file \<Rightarrow>
            map_option
              (\<lambda>content.
                 let result = add_technology_if_not_exists result ''devops'' ''CMake'' 4
                 in if sublist ''project'' (lower content)
                    then (if sublist ''CXX'' content \<or> sublist ''CPP'' content
                          then add_technology_if_not_exists result ''language'' ''C++'' 5
                          else if sublist ''C'' content \<and> \<not> sublist ''CXX'' content
                                  \<and> \<not> sublist ''CPP'' content
                          then add_technology_if_not_exists result ''language'' ''C'' 5
                          else result)
                    else result)
              (file_content file))"

definition analyze_android_projects :: "fs_node list \<Rightarrow> tech_data \<Rightarrow> tech_data option" where
  "analyze_android_projects tree result =
     (if file_exists tree [''app'', ''src'', ''main'', ''AndroidManifest.xml'']
      then (let result = add_technology_if_not_exists result ''framework'' ''Android'' 5
            in case lookup_file tree [''app'', ''build.gradle''] of
                 None \<Rightarrow> Some result
               | Some file \<Rightarrow>
                   map_option
                     (\<lambda>content.
                        if sublist ''kotlin'' (lower content)
                        then add_technology_if_not_exists result ''language'' ''Kotlin'' 5
                        else add_technology_if_not_exists result ''language'' ''Java'' 5)
                     (file_content file))
      else Some result)"

definition analyze_ios_projects :: "string \<Rightarrow> fs_node list \<Rightarrow> tech_data \<Rightarrow> tech_data" where
  "analyze_ios_projects project_path tree result =
     (let entries = os_walk (\<lambda>_. True) project_path tree;
          xcodeproj_dirs = concat (map (\<lambda>e. take 1 (filter (suffix ''.xcodeproj'') (walk_dirs e))) entries)
      in if xcodeproj_dirs \<noteq> []
         then (let swift_files = files_ending ''.swift'' entries;
                   objc_files = concat (map (\<lambda>e. filter (\<lambda>f. \<not> suffix ''.swift'' (file_name f)
                                      \<and> (suffix ''.m'' (file_name f) \<or> suffix ''.h'' (file_name f)))
                                   (walk_files e)) entries)
               in if swift_files \<noteq> []
                  then add_technology_if_not_exists
                         (add_technology_if_not_exists result ''language'' ''Swift'' 5)
                         ''framework'' ''iOS'' 5
                  else if objc_files \<noteq> []
                  then add_technology_if_not_exists
                         (add_technology_if_not_exists result ''language'' ''Objective-C'' 5)
                         ''framework'' ''iOS'' 5
                  else result)
         else result)"

definition analyze_specific_files :: "environment \<Rightarrow> fs_node list \<Rightarrow> tech_data \<Rightarrow> tech_data" where
  "analyze_specific_files env tree result =
     foldl (\<lambda>result (filename, technology).
        if \<not> prefix ''/'' filename \<and> configured_file_exists tree filename
        then add_marker result technology else result)
       result (project_files_config env)"

definition analyze_project_files ::
  "environment \<Rightarrow> string \<Rightarrow> fs_node list \<Rightarrow> tech_data \<Rightarrow> tech_data option" where
  "analyze_project_files env project_path tree result =
     (case analyze_cpp_projects tree (analyze_dotnet_projects project_path tree result) of
        None \<Rightarrow> None
      | Some result \<Rightarrow>
          map_option
            (\<lambda>result. analyze_specific_files env tree (analyze_ios_projects project_path tree result))
            (analyze_android_projects tree result))"

text \<open>\<^verbatim>\<open>detect_technologies\<close>; \<^const>\<open>None\<close> when an exception leaves one of the analyzers.\<close>

definition detect_technologies :: "environment \<Rightarrow> string \<Rightarrow> fs_node list \<Rightarrow> tech_data option" where
  "detect_technologies env project_path tree =
     (case analyze_package_files env tree
             (analyze_file_extensions env project_path tree initial_result) of
        None \<Rightarrow> None
      | Some result \<Rightarrow>
          analyze_project_files env project_path tree
            (analyze_config_files env project_path tree result))"

section \<open>Project aggregator: enrichment, architecture and the analysis\<close>

text \<open>
  The first loop of \<^verbatim>\<open>_enrich_technologies_from_source\<close>. The regular-expression search
  for import targets and their lookup in the library tables is \<open>scan_imports\<close> of the
  environment: for a sampled file, the assignments \<^verbatim>\<open>found_libraries[lib] = (category,
  description)\<close> in the order in which the loops make them. A file that cannot be read
  assigns nothing.
\<close>

definition enrich_extensions :: "string list" where
  "enrich_extensions = [''.py'', ''.js'', ''.ts'']"

definition found_libraries_of :: "environment \<Rightarrow> string \<Rightarrow> fs_node list \<Rightarrow> (string \<times> string \<times> string) list" where
  "found_libraries_of env project_path tree =
     foldl (\<lambda>found file.
        case file_content file of
          None \<Rightarrow> found
        | Some content \<Rightarrow>
            foldl (\<lambda>found (lib, category, description). AList.update lib (category, description) found)
              found (scan_imports env file))
       []
       (take 50 (source_files_of enrich_extensions (os_walk (\<lambda>_. True) project_path tree)))"

definition enrich_technologies_from_source ::
  "environment \<Rightarrow> string \<Rightarrow> fs_node list \<Rightarrow> tech_data \<Rightarrow> tech_data" where
  "enrich_technologies_from_source env project_path tree tech_data =
     add_found_libraries (found_libraries_of env project_path tree) tech_data"

text \<open>\<^verbatim>\<open>sep.join(xs)\<close>\<close>

fun join_with :: "string \<Rightarrow> string list \<Rightarrow> string" where
  "join_with sep [] = []"
| "join_with sep [x] = x"
| "join_with sep (x # xs) = x @ sep @ join_with sep xs"

text \<open>The sub-directories of a directory, each with its entries.\<close>

fun dir_nodes :: "fs_node list \<Rightarrow> (string \<times> fs_node list) list" where
  "dir_nodes [] = []"
| "dir_nodes (FsDir n cs # rest) = (n, cs) # dir_nodes rest"
| "dir_nodes (FsFile f # rest) = dir_nodes rest"

text \<open>
  \<^verbatim>\<open>project_dirs\<close> of \<^verbatim>\<open>_detect_architecture_description\<close>: the sub-directories of
  \<^verbatim>\<open>src\<close> when that is a directory, otherwise those of the project root whose name does
  not start with a dot.
\<close>

definition architecture_dirs :: "fs_node list \<Rightarrow> (string \<times> fs_node list) list" where
  "architecture_dirs tree =
     (case subdir tree ''src'' of
        Some entries \<Rightarrow> dir_nodes entries
      | None \<Rightarrow> filter (\<lambda>(d, cs). \<not> prefix ''.'' d) (dir_nodes tree))"

text \<open>
  The directory \<^verbatim>\<open>name\<close> looked up at the project root when the root lists that name, and
  below \<^verbatim>\<open>src\<close> otherwise; \<^const>\<open>None\<close> when the path is not a directory.
\<close>

definition root_or_src_dir :: "fs_node list \<Rightarrow> string \<Rightarrow> fs_node list option" where
  "root_or_src_dir tree name =
     (if name \<in> set (listdir tree) then lookup_dir tree [name] else lookup_dir tree [''src'', name])"

definition has_factory_file :: "(string \<times> fs_node list) list \<Rightarrow> bool" where
  "has_factory_file project_dirs \<longleftrightarrow>
     list_ex (\<lambda>(d, cs).
        list_ex (\<lambda>e. list_ex (\<lambda>f. sublist ''factory'' (lower (file_name f))) (walk_files e))
          (os_walk (\<lambda>_. True) d cs))
       project_dirs"

definition architecture_components :: "fs_node list \<Rightarrow> technology list \<Rightarrow> string list" where
  "architecture_components tree techs =
     (let project_dirs = architecture_dirs tree;
          dir_names = map (\<lambda>(d, cs). lower d) project_dirs;
          has = (\<lambda>d. d \<in> set dir_names);
          layer_count = length (filter has [''data'', ''domain'', ''application'', ''presentation'',
                                            ''ui'', ''persistence'']);
          tech_names = map (\<lambda>tech. lower (tech_name tech)) techs
      in (if list_all has [''models'', ''views'', ''controllers'']
          then [''MVC (Model-View-Controller)''] else [])
       @ (if list_all has [''models'', ''views'', ''viewmodels'']
          then [''MVVM (Model-View-ViewModel)''] else [])
       @ (if list_all has [''models'', ''views'', ''presenters'']
          then [''MVP (Model-View-Presenter)''] else [])
       @ (if list_ex has [''domain'', ''entities'']
             \<and> list_ex has [''application'', ''usecases'', ''use_cases'']
             \<and> list_ex has [''infrastructure'', ''frameworks'']
          then [''Clean Architecture''] else [])
       @ (if layer_count \<ge> 2 then [''Layered Architecture''] else [])
       @ (if has ''services''
             \<and> (case root_or_src_dir tree ''services'' of
                  None \<Rightarrow> False
                | Some entries \<Rightarrow> length (dir_nodes entries) > 2)
          then [''Service-Oriented Architecture''] else [])
       @ (if has ''repositories'' then [''Repository Pattern''] else [])
       @ (if has_factory_file project_dirs then [''Factory Pattern''] else [])
       @ (if ''django'' \<in> set tech_names then [''Django MTV (Model-Template-View)''] else [])
       @ (if ''flask'' \<in> set tech_names \<or> ''fastapi'' \<in> set tech_names then [''REST API''] else [])
       @ (if ''express'' \<in> set tech_names then [''Express.js Middleware Architecture''] else [])
       @ (if ''react'' \<in> set tech_names then [''Component-Based Architecture''] else [])
       @ (if has ''domain''
             \<and> (case root_or_src_dir tree ''domain'' of
                  None \<Rightarrow> False
                | Some entries \<Rightarrow>
                    list_ex (\<lambda>n. n \<in> set (map lower (listdir entries)))
                      [''aggregates'', ''entities'', ''value_objects'', ''services''])
          then [''Domain-Driven Design (DDD)''] else []))"

definition detect_architecture_description :: "fs_node list \<Rightarrow> technology list \<Rightarrow> string" where
  "detect_architecture_description tree techs =
     (let components = architecture_components tree techs;
          architecture_description =
            (if components = []
             then (let tech_arch = map tech_name
                                     (filter (\<lambda>tech. tech_category tech = ''architecture'') techs)
                   in if tech_arch \<noteq> []
                      then ''The project uses the following architectural approaches: ''
                             @ join_with '', '' tech_arch @ ''.''
                      else ''Standard application architecture.'')
             else ''The project uses the following architectural approaches and patterns: ''
                    @ join_with '', '' components @ ''.'')
      in if ''src'' \<in> set (listdir tree)
         then (case subdir tree ''src'' of
                 None \<Rightarrow> architecture_description
               | Some entries \<Rightarrow>
                   (let src_dirs = map fst (dir_nodes entries)
                    in if src_dirs \<noteq> []
                       then architecture_description @ '' Main modules: ''
                              @ join_with '', '' src_dirs @ ''.''
                       else architecture_description))
         else architecture_description)"

text \<open>
  The part of the \<^verbatim>\<open>Project\<close> that \<^verbatim>\<open>analyze\<close> builds from the technology pipeline: the
  statistics of the structure, the technologies, the features and the architecture
  description of the metadata. The result is \<^const>\<open>None\<close> when an exception leaves
  \<^verbatim>\<open>analyze\<close>.
\<close>

record analysis =
  analysis_stats :: file_stats
  analysis_technologies :: "technology list"
  analysis_features :: "feature list"
  analysis_architecture :: string

text \<open>
  The technology mapping of \<^verbatim>\<open>analyze\<close> after detection, source enrichment and the
  fill-in of the categories, just before it is converted to the technology list.
\<close>

definition technology_data :: "environment \<Rightarrow> string \<Rightarrow> fs_node list \<Rightarrow> tech_data option" where
  "technology_data env project_path tree =
     map_option
       (\<lambda>tech_data.
          fill_required_categories (enrich_technologies_from_source env project_path tree tech_data))
       (detect_technologies env project_path tree)"

definition analyze :: "environment \<Rightarrow> string \<Rightarrow> fs_node list \<Rightarrow> analysis option" where
  "analyze env project_path tree =
     (case technology_data env project_path tree of
        None \<Rightarrow> None
      | Some tech_data \<Rightarrow>
          (let techs = convert_technologies_data tech_data
           in case detect_project_features project_path tree techs of
                None \<Rightarrow> None
              | Some detected_features \<Rightarrow>
                  Some \<lparr>analysis_stats = analyze_structure_stats project_path tree,
                        analysis_technologies = techs,
                        analysis_features = detected_features,
                        analysis_architecture = detect_architecture_description tree techs\<rparr>))"

definition docker_only :: project where
  "docker_only = \<lparr>proj_name = ''demo'', proj_path = ''/srv/demo'', proj_description = '''',
     technologies = [\<lparr>tech_name = ''Docker'', tech_category = ''devops'', tech_version = None,
                      tech_importance = 4\<rparr>],
     features = []\<rparr>"

definition two_languages :: project where
  "two_languages = \<lparr>proj_name = ''demo'', proj_path = ''/srv/demo'', proj_description = '''',
     technologies =
       [\<lparr>tech_name = ''Docker'', tech_category = ''devops'', tech_version = None, tech_importance = 4\<rparr>,
        \<lparr>tech_name = ''Shell'', tech_category = ''language'', tech_version = None, tech_importance = 2\<rparr>,
        \<lparr>tech_name = ''Python'', tech_category = ''language'', tech_version = None, tech_importance = 5\<rparr>],
     features = []\<rparr>"

definition sample_tree :: "fs_node list" where
  "sample_tree =
     [FsFile \<lparr>file_name = ''a.py'', file_size = Some 10, file_content = Some ''''\<rparr>,
      FsFile \<lparr>file_name = ''b.py'', file_size = Some 70, file_content = Some ''''\<rparr>,
      FsDir ''build'' [FsFile \<lparr>file_name = ''big.bin'', file_size = Some 9000, file_content = None\<rparr>],
      FsDir ''pkg''
        [FsFile \<lparr>file_name = ''c.py'', file_size = Some 30, file_content = Some ''''\<rparr>,
         FsFile \<lparr>file_name = ''d.py'', file_size = Some 70, file_content = Some ''''\<rparr>,
         FsFile \<lparr>file_name = ''e.pyc'', file_size = Some 500, file_content = None\<rparr>,
         FsFile \<lparr>file_name = ''f.txt'', file_size = None, file_content = None\<rparr>,
         FsFile \<lparr>file_name = ''g.md'', file_size = Some 20, file_content = Some ''''\<rparr>,
         FsFile \<lparr>file_name = ''h.md'', file_size = Some 40, file_content = Some ''''\<rparr>]]"


definition requirements_sample :: string where
  "requirements_sample =
     ''flask==2.0.1'' @ [CHR 0x0A] @ ''# comment'' @ [CHR 0x0A] @ [CHR 0x0A]
       @ ''  requests >= 2.0 '' @ [CHR 0x0D, CHR 0x0A] @ ''pytest'' @ [CHR 0x0A]"

definition readme_plain :: string where
  "readme_plain = ''Hello world'' @ [CHR 0x0A] @ ''Second line''"

definition readme_long_line :: string where
  "readme_long_line = ''  '' @ replicate 201 (CHR ''a'') @ '' ''"

definition readme_titled :: string where
  "readme_titled =
     ''# Demo'' @ [CHR 0x0A] @ [CHR 0x0A] @ ''## Usage'' @ [CHR 0x0A]
       @ readme_long_line @ [CHR 0x0A] @ ''tail''"

definition source_file :: "string \<Rightarrow> string \<Rightarrow> fs_node" where
  "source_file name text =
     FsFile \<lparr>file_name = name, file_size = Some (int (length text)), file_content = Some text\<rparr>"

definition seven_web_words :: string where
  "seven_web_words = ''Flask Django Express FastAPI Templates Views Render''"

definition web7_tree :: "fs_node list" where
  "web7_tree = [source_file ''app.py'' seven_web_words]"

definition web8_tree :: "fs_node list" where
  "web8_tree = [source_file ''app.py'' (seven_web_words @ '' Response'')]"

definition web10_tree :: "fs_node list" where
  "web10_tree = [source_file ''app.py'' (seven_web_words @ '' Response app.get app.post'')]"

definition web15_tree :: "fs_node list" where
  "web15_tree =
     [source_file ''app.py'' (seven_web_words @ '' Response''),
      source_file ''urls.py'' seven_web_words]"

definition flask_thrice_tree :: "fs_node list" where
  "flask_thrice_tree = [source_file ''app.py'' ''flask flask flask'']"

definition zero_counters :: counters where
  "zero_counters =
     [(Web, 0), (Api, 0), (Cli, 0), (Database, 0), (Ai, 0), (Scraping, 0), (Testing, 0),
      (Auth, 0), (File_processing, 0), (Async, 0)]"

definition web_counters :: "nat \<Rightarrow> nat \<Rightarrow> counters" where
  "web_counters web api =
     [(Web, web), (Api, api), (Cli, 0), (Database, 0), (Ai, 0), (Scraping, 0), (Testing, 0),
      (Auth, 0), (File_processing, 0), (Async, 0)]"

definition latin_project_path :: string where
  "latin_project_path = ''/srv/'' @ [CHR 0xC9, CHR ''t'', CHR 0xE9] @ ''_x''"

text \<open>
  A matcher that is right for literal patterns and for patterns of the form \<^verbatim>\<open>*suffix\<close>,
  the only forms in the ignore list.
\<close>

definition literal_or_suffix_match :: "string \<Rightarrow> string \<Rightarrow> bool" where
  "literal_or_suffix_match name pattern \<longleftrightarrow>
     (if prefix ''*'' pattern then suffix (tl pattern) name else name = pattern)"

definition express_manifest :: string where
  "express_manifest = ''{\"name\":\"demo\",\"dependencies\":{\"express\":\"^4.0\"}}''"

definition express_package :: package_json where
  "express_package =
     \<lparr>pj_name = ''demo'', pj_dependencies = [(''express'', ''^4.0'')],
      pj_dev_dependencies = [], pj_scripts = []\<rparr>"

definition demo_environment :: environment where
  "demo_environment =
     \<lparr>extensions_config = [], project_files_config = [],
      load_package_json = (\<lambda>content. if content = express_manifest then Some express_package else None),
      load_poetry_dependencies = (\<lambda>content. None),
      load_cargo_toml = (\<lambda>content. None),
      scan_pom_xml = (\<lambda>content. []),
      fnmatch = literal_or_suffix_match,
      scan_imports = (\<lambda>file. [])\<rparr>"

definition express_project :: "fs_node list" where
  "express_project =
     [FsFile \<lparr>file_name = ''package.json'', file_size = Some (int (length express_manifest)),
              file_content = Some express_manifest\<rparr>,
      FsDir ''routes'' []]"

definition technology_of :: "string \<Rightarrow> string \<Rightarrow> int \<Rightarrow> technology" where
  "technology_of category name importance =
     \<lparr>tech_name = name, tech_category = category, tech_version = None,
      tech_importance = importance\<rparr>"

section \<open>Primary language of a project\<close>

lemma sort_desc_set [simp]: "set (sort_desc k xs) = set xs"
  by (simp add: sort_desc_def)

lemma sort_desc_Nil_iff [simp]: "sort_desc k xs = [] \<longleftrightarrow> xs = []"
  by (metis sort_desc_set set_empty)

lemma sort_desc_filter: "filter P (sort_desc k xs) = sort_desc k (filter P xs)"
  by (simp add: sort_desc_def filter_sort)

lemma hd_sort_desc_top:
  assumes "xs \<noteq> []"
  shows "top_importance xs (hd (sort_desc tech_importance xs))"
proof -
  let ?ys = "sort_desc tech_importance xs"
  have ne: "?ys \<noteq> []" using assms by simp
  then obtain y ys where ys: "?ys = y # ys" by (cases ?ys) auto
  have srt: "sorted (map (\<lambda>x. - tech_importance x) ?ys)"
    by (simp add: sort_desc_def)
  have "\<forall>u \<in> set (y # ys). tech_importance u \<le> tech_importance y"
    using srt unfolding ys by auto
  then have "\<forall>u \<in> set xs. tech_importance u \<le> tech_importance y"
    by (metis ys sort_desc_set)
  moreover have "y \<in> set xs"
    by (metis ys list.set_intros(1) sort_desc_set)
  moreover have "hd ?ys = y"
    by (simp add: ys)
  ultimately show ?thesis
    by (simp add: top_importance_def)
qed

lemma get_primary_language_None:
  "get_primary_language p = None \<longleftrightarrow> language_technologies p = []"
  by (simp add: get_primary_language_def Let_def)

lemma get_primary_language_Some:
  assumes "language_technologies p \<noteq> []"
  shows "\<exists>t. get_primary_language p = Some (tech_name t) \<and> top_importance (language_technologies p) t"
  using assms hd_sort_desc_top [OF assms]
  by (auto simp: get_primary_language_def Let_def)

lemma main_language_None: "main_language p = None \<longleftrightarrow> technologies p = []"
  by (simp add: main_language_def Let_def)

lemma main_language_with_language:
  assumes "language_technologies p \<noteq> []"
  shows "main_language p = get_primary_language p"
proof -
  have "technologies p \<noteq> []"
    using assms by (auto simp: language_technologies_def)
  then show ?thesis
    using assms
    by (simp add: main_language_def get_primary_language_def Let_def sort_desc_filter
        language_technologies_def)
qed

lemma main_language_without_language:
  assumes "language_technologies p = []" and "technologies p \<noteq> []"
  shows "\<exists>t. main_language p = Some (tech_name t) \<and> top_importance (technologies p) t"
  using assms hd_sort_desc_top [OF assms(2)]
  by (auto simp: main_language_def Let_def sort_desc_filter language_technologies_def)

text \<open>
  C10, as stated, fails for the \<^verbatim>\<open>main_language\<close> property: a project whose only
  technology is the devops tool Docker has no language technology, yet
  \<^verbatim>\<open>main_language\<close> answers \<^verbatim>\<open>"Docker"\<close> (the fallback \<^verbatim>\<open>sorted_tech[0].name\<close>), while
  \<^verbatim>\<open>get_primary_language\<close> answers \<^verbatim>\<open>None\<close>.
\<close>

theorem main_language_counterexample:
  "language_technologies docker_only = [] \<and> main_language docker_only = Some ''Docker''
   \<and> get_primary_language docker_only = None"
  by (simp add: docker_only_def language_technologies_def main_language_def
      get_primary_language_def sort_desc_def Let_def)

text \<open>
  C10, amended. \<^verbatim>\<open>get_primary_language\<close> returns \<^verbatim>\<open>None\<close> exactly when no technology has
  category \<^verbatim>\<open>"language"\<close>; \<^verbatim>\<open>main_language\<close> returns \<^verbatim>\<open>None\<close> exactly when the project has no
  technology at all. When a language technology exists, both return the name of a language
  technology whose importance is maximal among the language technologies; when technologies
  exist but none is a language, \<^verbatim>\<open>main_language\<close> returns the name of a technology of
  maximal importance among all technologies.
\<close>

theorem primary_language_correct:
  "(get_primary_language p = None \<longleftrightarrow> language_technologies p = [])
   \<and> (main_language p = None \<longleftrightarrow> technologies p = [])
   \<and> (language_technologies p \<noteq> [] \<longrightarrow>
        main_language p = get_primary_language p
        \<and> (\<exists>t. get_primary_language p = Some (tech_name t)
               \<and> top_importance (language_technologies p) t))
   \<and> (language_technologies p = [] \<and> technologies p \<noteq> [] \<longrightarrow>
        (\<exists>t. main_language p = Some (tech_name t) \<and> top_importance (technologies p) t))"
  using get_primary_language_None main_language_None main_language_with_language
    get_primary_language_Some main_language_without_language
  by blast

theorem primary_language_correct_witness:
  "language_technologies two_languages \<noteq> []
   \<and> main_language two_languages = Some ''Python''
   \<and> get_primary_language two_languages = Some ''Python''
   \<and> language_technologies docker_only = [] \<and> technologies docker_only \<noteq> []
   \<and> main_language docker_only \<noteq> None"
  using primary_language_correct [of two_languages] primary_language_correct [of docker_only]
  by (simp add: two_languages_def docker_only_def language_technologies_def main_language_def
      get_primary_language_def sort_desc_def Let_def)

section \<open>The largest files\<close>

lemma sort_desc_sorted_wrt: "sorted_wrt (\<lambda>a b. k a \<ge> k b) (sort_desc k xs)"
proof -
  have "sorted (map (\<lambda>x. - k x) (sort_desc k xs))"
    by (simp add: sort_desc_def)
  then show ?thesis
    by (simp add: sorted_map)
qed

lemma add_largest_top5:
  assumes "top5_sorted lfs"
  shows "top5_sorted (add_largest lfs path sz)"
proof (cases "length lfs < 5 \<or> sz > lf_size (last lfs)")
  case True
  let ?xs = "sort_desc lf_size (lfs @ [\<lparr>lf_path = path, lf_size = sz\<rparr>])"
  have "sorted_wrt (\<lambda>a b. lf_size a \<ge> lf_size b) ?xs"
    by (rule sort_desc_sorted_wrt)
  then have "sorted_wrt (\<lambda>a b. lf_size a \<ge> lf_size b) (take 5 ?xs)"
    by (rule sorted_wrt_take)
  then show ?thesis
    using True by (simp add: add_largest_def top5_sorted_def)
next
  case False
  then show ?thesis using assms by (simp add: add_largest_def)
qed

lemma stats_file_top5:
  assumes "top5_sorted (largest_files stats)"
  shows "top5_sorted (largest_files (stats_file ign rel stats file))"
  using assms
  by (simp add: stats_file_def Let_def add_largest_top5 split: option.splits)

lemma foldl_stats_file_top5:
  "top5_sorted (largest_files stats) \<Longrightarrow>
   top5_sorted (largest_files (foldl (stats_file ign rel) stats files))"
  by (induction files arbitrary: stats) (simp_all add: stats_file_top5)

lemma stats_entry_top5:
  "top5_sorted (largest_files stats) \<Longrightarrow> top5_sorted (largest_files (stats_entry ign stats e))"
  by (simp add: stats_entry_def foldl_stats_file_top5)

lemma foldl_stats_entry_top5:
  "top5_sorted (largest_files stats) \<Longrightarrow>
   top5_sorted (largest_files (foldl (stats_entry ign) stats es))"
  by (induction es arbitrary: stats) (simp_all add: stats_entry_top5)

text \<open>
  C9. For every project (any path, any directory tree, any ignore lists), the
  \<^verbatim>\<open>largest_files\<close> list of the computed statistics has at most five entries and is ordered
  non-increasing by size.
\<close>

theorem largest_files_top5:
  "length (largest_files (collect_file_stats project_path tree ign_dirs ign_files)) \<le> 5
   \<and> sorted_wrt (\<lambda>a b. lf_size a \<ge> lf_size b)
        (largest_files (collect_file_stats project_path tree ign_dirs ign_files))"
proof -
  have "top5_sorted (largest_files (collect_file_stats project_path tree ign_dirs ign_files))"
    unfolding collect_file_stats_def
    by (rule foldl_stats_entry_top5) (simp add: top5_sorted_def)
  then show ?thesis
    by (simp add: top5_sorted_def)
qed

theorem largest_files_top5_witness:
  "map lf_size (largest_files (analyze_structure_stats ''/srv/demo'' sample_tree)) = [70, 70, 40, 30, 20]
   \<and> map lf_path (largest_files (analyze_structure_stats ''/srv/demo'' sample_tree))
       = [''b.py'', ''pkg/d.py'', ''pkg/h.md'', ''pkg/c.py'', ''pkg/g.md'']
   \<and> length (largest_files (analyze_structure_stats ''/srv/demo'' sample_tree)) \<le> 5"
proof -
  have "largest_files (analyze_structure_stats ''/srv/demo'' sample_tree) =
     [\<lparr>lf_path = ''b.py'', lf_size = 70\<rparr>, \<lparr>lf_path = ''pkg/d.py'', lf_size = 70\<rparr>,
      \<lparr>lf_path = ''pkg/h.md'', lf_size = 40\<rparr>, \<lparr>lf_path = ''pkg/c.py'', lf_size = 30\<rparr>,
      \<lparr>lf_path = ''pkg/g.md'', lf_size = 20\<rparr>]"
    by code_simp
  then show ?thesis
    using largest_files_top5 [of "''/srv/demo''" sample_tree ignored_dirs ignored_files]
    by (simp add: analyze_structure_stats_def)
qed

section \<open>The registry merges by maximum\<close>

lemma map_of_update_self [simp]: "map_of (AList.update k v al) k = Some v"
  by (simp add: update_conv')


lemma entries_of_add_other:
  "c' \<noteq> c \<Longrightarrow> entries_of (add_technology_if_not_exists r c n i) c' = entries_of r c'"
  by (simp add: add_technology_if_not_exists_def entries_of_def Let_def update_conv')

lemma upsert_entry_absent:
  "n \<notin> set (map entry_name ts) \<Longrightarrow>
   upsert_entry ts n i = ts @ [\<lparr>entry_name = n, entry_count = None, entry_importance = i\<rparr>]"
  by (induction ts) auto


lemma upsert_entry_length:
  "length (upsert_entry ts n i) = (if n \<in> set (map entry_name ts) then length ts else length ts + 1)"
  by (induction ts) auto



lemma upsert_entry_others:
  "n' \<noteq> n \<Longrightarrow>
   filter (\<lambda>t. entry_name t = n') (upsert_entry ts n i) = filter (\<lambda>t. entry_name t = n') ts"
  by (induction ts) auto









section \<open>All nine categories are keys of the technology mapping\<close>

lemma keys_ensure:
  "fst ` set (if map_of td c = None then AList.update c v td else td) = insert c (fst ` set td)"
proof (cases "map_of td c")
  case None
  then show ?thesis by (simp add: dom_update)
next
  case (Some ts)
  then have "c \<in> fst ` set td"
    by (metis map_of_eq_None_iff option.distinct(1))
  then show ?thesis using Some by auto
qed

lemma keys_add_technology:
  "fst ` set (add_technology_if_not_exists r c n i) = insert c (fst ` set r)"
  by (simp add: add_technology_if_not_exists_def Let_def dom_update keys_ensure)

lemma keys_fill_loop:
  "fst ` set (foldl (\<lambda>td category. if map_of td category = None
                                        then AList.update category [] td else td) td cs)
   = fst ` set td \<union> set cs"
proof (induction cs arbitrary: td)
  case Nil
  then show ?case by simp
next
  case (Cons c cs)
  show ?case
    unfolding foldl_Cons Cons.IH keys_ensure by auto
qed

lemma keys_fill_required_categories:
  "fst ` set (fill_required_categories td) = fst ` set td \<union> set required_categories"
  unfolding fill_required_categories_def by (rule keys_fill_loop)

lemma nine_categories_required: "set nine_categories = set required_categories"
  by (auto simp: nine_categories_def required_categories_def)

text \<open>
  C2. For every project (any environment, path and directory tree) on which the detection
  returns, the technology mapping that \<^verbatim>\<open>analyze\<close> holds after detection, source
  enrichment and the category fill-in, before the conversion to the final list, has each of
  the nine categories language, framework, database, frontend, backend, devops, testing,
  architecture and other as a key, mapped to a list. The fill-in loop alone ensures this,
  whatever dictionary the detection returns and whatever libraries the enrichment finds.
\<close>

theorem nine_categories_present:
  "(\<forall>tech_data. technology_data env project_path tree = Some tech_data \<longrightarrow>
      (\<forall>category \<in> set nine_categories. \<exists>items. map_of tech_data category = Some items))
   \<and> (\<forall>category \<in> set nine_categories.
        \<exists>items. map_of (technology_mapping detected found_libraries) category = Some items)"
proof -
  have keys: "\<exists>items. map_of (fill_required_categories td) category = Some items"
    if "category \<in> set nine_categories" for td category
  proof -
    have "category \<in> fst ` set (fill_required_categories td)"
      using that by (simp add: keys_fill_required_categories nine_categories_required)
    then have "map_of (fill_required_categories td) category \<noteq> None"
      by (simp add: map_of_eq_None_iff)
    then show ?thesis by auto
  qed
  show ?thesis
  proof (intro conjI allI impI ballI)
    fix tech_data category
    assume "technology_data env project_path tree = Some tech_data"
      and c: "category \<in> set nine_categories"
    then obtain detected where
      "tech_data = fill_required_categories
         (enrich_technologies_from_source env project_path tree detected)"
      by (auto simp: technology_data_def)
    then show "\<exists>items. map_of tech_data category = Some items"
      using keys [OF c] by simp
  next
    fix category assume "category \<in> set nine_categories"
    then show "\<exists>items. map_of (technology_mapping detected found_libraries) category = Some items"
      unfolding technology_mapping_def by (rule keys)
  qed
qed

theorem nine_categories_present_witness:
  "map fst (technology_mapping [] []) = required_categories
   \<and> map_of (technology_mapping [] []) ''other'' = Some []
   \<and> map_option (map fst) (technology_data demo_environment ''/srv/demo'' express_project)
       = Some nine_categories
   \<and> map_of (technology_mapping
               [(''backend'', [\<lparr>entry_name = ''Express.js'', entry_count = None, entry_importance = 5\<rparr>])]
               [(''express'', ''backend'', ''Web framework for Node.js'')]) ''backend''
      = Some [\<lparr>entry_name = ''Express.js'', entry_count = None, entry_importance = 5\<rparr>,
              \<lparr>entry_name = ''express'', entry_count = None, entry_importance = 3\<rparr>]
   \<and> ''other'' \<in> set nine_categories"
proof -
  have "map fst (technology_mapping [] []) = required_categories"
    by code_simp
  moreover have "map_of (technology_mapping
               [(''backend'', [\<lparr>entry_name = ''Express.js'', entry_count = None, entry_importance = 5\<rparr>])]
               [(''express'', ''backend'', ''Web framework for Node.js'')]) ''backend''
      = Some [\<lparr>entry_name = ''Express.js'', entry_count = None, entry_importance = 5\<rparr>,
              \<lparr>entry_name = ''express'', entry_count = None, entry_importance = 3\<rparr>]"
    by code_simp
  moreover have "''other'' \<in> set nine_categories"
    by (simp add: nine_categories_def)
  moreover have "map_of (technology_mapping [] []) ''other'' = Some []"
    by code_simp
  moreover have "map_option (map fst) (technology_data demo_environment ''/srv/demo'' express_project)
       = Some nine_categories"
    by code_simp
  ultimately show ?thesis
    using nine_categories_present [of demo_environment "''/srv/demo''" express_project "[]" "[]"]
    by simp
qed

section \<open>Parsing requirements.txt\<close>

lemma prefix_append_short:
  "prefix xs (ys @ zs) \<Longrightarrow> length xs \<le> length ys \<Longrightarrow> prefix xs ys"
  by (auto simp: prefix_append)

lemma split_first_leftmost:
  assumes "sep \<noteq> []" and "\<not> sublist sep (before @ butlast sep)"
  shows "split_first sep (before @ sep @ after) = (before, after)"
  using assms(2)
proof (induction before)
  case Nil
  obtain c cs where sep: "sep = c # cs"
    using assms(1) by (cases sep) auto
  show ?case
    by (simp add: sep)
next
  case (Cons x before)
  have no_prefix: "\<not> prefix sep (x # before @ sep @ after)"
  proof
    assume p: "prefix sep (x # before @ sep @ after)"
    have eq: "x # before @ sep @ after = ((x # before) @ butlast sep) @ (last sep # after)"
      using assms(1) by simp
    have "length sep \<le> length ((x # before) @ butlast sep)"
      by simp
    moreover have "prefix sep (((x # before) @ butlast sep) @ (last sep # after))"
      using p unfolding eq .
    ultimately have "prefix sep ((x # before) @ butlast sep)"
      by (rule prefix_append_short [rotated])
    then have "sublist sep ((x # before) @ butlast sep)"
      by (rule prefix_imp_sublist)
    then show False
      using Cons.prems by simp
  qed
  have "\<not> sublist sep (before @ butlast sep)"
    using Cons.prems by (auto simp: sublist_Cons_right)
  then have "split_first sep (before @ sep @ after) = (before, after)"
    by (rule Cons.IH)
  then show ?case
    using no_prefix by simp
qed

lemma split_first_exists:
  assumes "sublist sep s" and "sep \<noteq> []"
  shows "leftmost_split sep s (fst (split_first sep s)) (snd (split_first sep s))"
  using assms(1)
proof (induction s)
  case Nil
  then show ?case using assms(2) by simp
next
  case (Cons c cs)
  show ?case
  proof (cases "prefix sep (c # cs)")
    case True
    then obtain rest where rest: "c # cs = sep @ rest"
      by (auto simp: prefix_def)
    have "\<not> sublist sep (butlast sep)"
      using assms(2) by (metis sublist_length_le length_butlast diff_less length_greater_0_conv
          less_numeral_extra(1) not_le)
    moreover have "split_first sep (c # cs) = ([], drop (length sep) (c # cs))"
      using True by simp
    moreover have "drop (length sep) (c # cs) = rest"
      unfolding rest by simp
    ultimately show ?thesis
      using rest by (simp add: leftmost_split_def)
  next
    case False
    then have sub: "sublist sep cs"
      using Cons.prems assms(2) by (cases sep) (auto simp: sublist_Cons_right)
    obtain a b where ab: "split_first sep cs = (a, b)"
      by (cases "split_first sep cs")
    have ih: "cs = a @ sep @ b" and left: "\<not> sublist sep (a @ butlast sep)"
      using Cons.IH [OF sub] ab by (simp_all add: leftmost_split_def)
    have "\<not> sublist sep (c # a @ butlast sep)"
    proof
      assume "sublist sep (c # a @ butlast sep)"
      then have "prefix sep (c # a @ butlast sep)"
        using left assms(2) by (cases sep) (auto simp: sublist_Cons_right)
      then have "prefix sep ((c # a @ butlast sep) @ (last sep # b))"
        by (rule prefix_prefix)
      moreover have "(c # a @ butlast sep) @ (last sep # b) = c # cs"
        using ih assms(2) by simp
      ultimately show False using False by simp
    qed
    then show ?thesis
      using False ab ih by (simp add: leftmost_split_def)
  qed
qed

lemma dropWhile_rev_dropWhile:
  "dropWhile P (rev (dropWhile P (rev (dropWhile P s)))) = rev (dropWhile P (rev (dropWhile P s)))"
proof -
  let ?u = "dropWhile P s"
  let ?v = "dropWhile P (rev ?u)"
  show ?thesis
  proof (cases "?v = []")
    case True
    show ?thesis unfolding True by simp
  next
    case False
    have u: "?u \<noteq> []"
    proof
      assume e: "?u = []"
      have "?v = []" unfolding e by simp
      with False show False by simp
    qed
    then have "\<not> P (hd ?u)" by (rule hd_dropWhile)
    obtain ws where ws: "rev ?u = ws @ ?v"
      by (metis takeWhile_dropWhile_id)
    have "last ?v = last (rev ?u)"
      using False ws by (metis last_appendR)
    then have "hd (rev ?v) = hd ?u"
      using False u by (simp add: hd_rev last_rev)
    then have "\<not> P (hd (rev ?v))"
      using \<open>\<not> P (hd ?u)\<close> by simp
    then show ?thesis
      using False by (cases "rev ?v") auto
  qed
qed

lemma strip_strip [simp]: "strip (strip s) = strip s"
proof -
  let ?t = "strip s"
  have a: "dropWhile is_space ?t = ?t"
    unfolding strip_def by (rule dropWhile_rev_dropWhile)
  have "dropWhile is_space (rev ?t) = rev ?t"
  proof (cases "dropWhile is_space (rev (dropWhile is_space s))")
    case Nil
    then show ?thesis by (simp add: strip_def)
  next
    case (Cons x xs)
    then have "\<not> is_space x"
      by (metis hd_dropWhile list.sel(1) list.distinct(1))
    then show ?thesis
      using Cons by (simp add: strip_def)
  qed
  then show ?thesis
    using a by (simp add: strip_def [of "strip s"])
qed

lemma parse_requirement_lines_map_filter:
  "parse_requirement_lines raws = List.map_filter parse_requirement_line raws"
  by (induction raws) (simp_all add: List.map_filter_simps split: option.splits)

lemma spec_operator_cases:
  "spec_operator line =
     (if sublist ''=='' line then Some ''==''
      else if sublist ''>='' line then Some ''>=''
      else if sublist ''<='' line then Some ''<=''
      else if sublist ''~='' line then Some ''~=''
      else None)"
  by (simp add: spec_operator_def)

lemma parse_requirement_line_operator:
  assumes "strip raw \<noteq> []" and "\<not> prefix ''#'' (strip raw)"
    and "spec_operator (strip raw) = Some op"
    and "leftmost_split op (strip raw) before after"
  shows "parse_requirement_line raw = Some \<lparr>pkg_name = strip before, pkg_version = strip after\<rparr>"
proof -
  have op: "op \<in> {''=='', ''>='', ''<='', ''~=''}"
    using assms(3) by (auto simp: spec_operator_cases split: if_splits)
  then have ne: "op \<noteq> []" by auto
  have sp: "split_first op (strip raw) = (before, after)"
    using assms(4) split_first_leftmost [OF ne, of before after]
    by (simp add: leftmost_split_def)
  have v: "(if after \<noteq> [] then strip after else after) = strip after"
    by (simp add: strip_def)
  show ?thesis
    using assms(1,2,3) sp v
    by (auto simp: parse_requirement_line_def Let_def spec_operator_cases split: if_splits)
qed

lemma parse_requirement_line_bare:
  assumes "strip raw \<noteq> []" and "\<not> prefix ''#'' (strip raw)"
    and "spec_operator (strip raw) = None"
  shows "parse_requirement_line raw = Some \<lparr>pkg_name = strip raw, pkg_version = ''''\<rparr>"
  using assms
  by (auto simp: parse_requirement_line_def Let_def spec_operator_cases split: if_splits)

lemma parse_requirement_line_skip:
  assumes "strip raw = [] \<or> prefix ''#'' (strip raw)"
  shows "parse_requirement_line raw = None"
  using assms by (auto simp: parse_requirement_line_def Let_def)

lemma spec_operator_split:
  assumes "spec_operator line = Some op"
  shows "\<exists>before after. leftmost_split op line before after"
proof -
  have "op \<noteq> []" and "sublist op line"
    using assms by (auto simp: spec_operator_cases split: if_splits)
  then show ?thesis
    using split_first_exists by blast
qed

text \<open>
  C5. For every line of requirements.txt, with surrounding white space stripped: a blank
  line and a line that starts with \<^verbatim>\<open>#\<close> yield no package; otherwise the first of the
  operators \<^verbatim>\<open>==\<close>, \<^verbatim>\<open>>=\<close>, \<^verbatim>\<open><=\<close>, \<^verbatim>\<open>~=\<close> (in this priority order) that occurs in the line
  splits it, at its leftmost occurrence, into the name and the version, both stripped; a line
  with none of the operators yields the line as a bare name with an empty version. The
  packages of a file are the packages of its lines, in order.
\<close>

theorem requirements_line_parsing:
  "(strip raw = [] \<or> prefix ''#'' (strip raw) \<longrightarrow> parse_requirement_line raw = None)
   \<and> (strip raw \<noteq> [] \<and> \<not> prefix ''#'' (strip raw) \<longrightarrow>
        (case spec_operator (strip raw) of
           None \<Rightarrow>
             parse_requirement_line raw = Some \<lparr>pkg_name = strip raw, pkg_version = ''''\<rparr>
         | Some op \<Rightarrow>
             (\<exists>before after. leftmost_split op (strip raw) before after)
             \<and> (\<forall>before after. leftmost_split op (strip raw) before after \<longrightarrow>
                   parse_requirement_line raw
                     = Some \<lparr>pkg_name = strip before, pkg_version = strip after\<rparr>)))
   \<and> parse_requirements_txt (Some text) = List.map_filter parse_requirement_line (splitlines text)"
proof (intro conjI impI)
  assume "strip raw = [] \<or> prefix ''#'' (strip raw)"
  then show "parse_requirement_line raw = None"
    by (rule parse_requirement_line_skip)
next
  assume a: "strip raw \<noteq> [] \<and> \<not> prefix ''#'' (strip raw)"
  show "case spec_operator (strip raw) of
           None \<Rightarrow>
             parse_requirement_line raw = Some \<lparr>pkg_name = strip raw, pkg_version = ''''\<rparr>
         | Some op \<Rightarrow>
             (\<exists>before after. leftmost_split op (strip raw) before after)
             \<and> (\<forall>before after. leftmost_split op (strip raw) before after \<longrightarrow>
                   parse_requirement_line raw
                     = Some \<lparr>pkg_name = strip before, pkg_version = strip after\<rparr>)"
  proof (cases "spec_operator (strip raw)")
    case None
    then show ?thesis
      using a by (simp add: parse_requirement_line_bare)
  next
    case (Some op)
    then show ?thesis
      using a spec_operator_split [OF Some]
      by (simp add: parse_requirement_line_operator)
  qed
next
  show "parse_requirements_txt (Some text) = List.map_filter parse_requirement_line (splitlines text)"
    by (simp add: parse_requirements_txt_def parse_requirement_lines_map_filter)
qed

theorem requirements_line_parsing_witness:
  "parse_requirement_line ''flask==2.0.1'' = Some \<lparr>pkg_name = ''flask'', pkg_version = ''2.0.1''\<rparr>
   \<and> parse_requirement_line ''requests>=2.0'' = Some \<lparr>pkg_name = ''requests'', pkg_version = ''2.0''\<rparr>
   \<and> parse_requirement_line '''' = None
   \<and> parse_requirement_line ''# comment'' = None
   \<and> parse_requirement_line ''pytest'' = Some \<lparr>pkg_name = ''pytest'', pkg_version = ''''\<rparr>
   \<and> parse_requirements_txt (Some requirements_sample)
       = [\<lparr>pkg_name = ''flask'', pkg_version = ''2.0.1''\<rparr>,
          \<lparr>pkg_name = ''requests'', pkg_version = ''2.0''\<rparr>,
          \<lparr>pkg_name = ''pytest'', pkg_version = ''''\<rparr>]"
proof -
  have s1: "strip ''flask==2.0.1'' = ''flask==2.0.1''" and o1: "spec_operator ''flask==2.0.1'' = Some ''==''"
    and l1: "leftmost_split ''=='' ''flask==2.0.1'' ''flask'' ''2.0.1''"
    and n1: "strip ''flask'' = ''flask''" and v1: "strip ''2.0.1'' = ''2.0.1''"
    by code_simp+
  have p1: "parse_requirement_line ''flask==2.0.1''
      = Some \<lparr>pkg_name = ''flask'', pkg_version = ''2.0.1''\<rparr>"
    using requirements_line_parsing [of "''flask==2.0.1''"] l1
    unfolding s1 o1 by (simp add: n1 v1)
  have s2: "strip ''requests>=2.0'' = ''requests>=2.0''" and o2: "spec_operator ''requests>=2.0'' = Some ''>=''"
    and l2: "leftmost_split ''>='' ''requests>=2.0'' ''requests'' ''2.0''"
    and n2: "strip ''requests'' = ''requests''" and v2: "strip ''2.0'' = ''2.0''"
    by code_simp+
  have p2: "parse_requirement_line ''requests>=2.0''
      = Some \<lparr>pkg_name = ''requests'', pkg_version = ''2.0''\<rparr>"
    using requirements_line_parsing [of "''requests>=2.0''"] l2
    unfolding s2 o2 by (simp add: n2 v2)
  have s3: "strip '''' = ''''" and s4: "strip ''# comment'' = ''# comment''"
    by code_simp+
  have p3: "parse_requirement_line '''' = None"
    using requirements_line_parsing [of "''''"] unfolding s3 by simp
  have p4: "parse_requirement_line ''# comment'' = None"
    using requirements_line_parsing [of "''# comment''"] unfolding s4 by simp
  have s5: "strip ''pytest'' = ''pytest''" and o5: "spec_operator ''pytest'' = None"
    by code_simp+
  have p5: "parse_requirement_line ''pytest'' = Some \<lparr>pkg_name = ''pytest'', pkg_version = ''''\<rparr>"
    using requirements_line_parsing [of "''pytest''"] unfolding s5 o5 by simp
  have p6: "parse_requirements_txt (Some requirements_sample)
       = [\<lparr>pkg_name = ''flask'', pkg_version = ''2.0.1''\<rparr>,
          \<lparr>pkg_name = ''requests'', pkg_version = ''2.0''\<rparr>,
          \<lparr>pkg_name = ''pytest'', pkg_version = ''''\<rparr>]"
    by code_simp
  show ?thesis
    using p1 p2 p3 p4 p5 p6 by simp
qed

section \<open>The description taken from README.md\<close>

lemma readme_scan_positive:
  "0 < i \<Longrightarrow>
   readme_scan i lines = map_option (\<lambda>line. truncate_200 (strip line)) (find description_line lines)"
  by (induction lines arbitrary: i) (simp_all add: description_line_def)

lemma split_on_not_Nil: "split_on sep s \<noteq> []"
  by (induction s) (simp_all split: list.splits)

lemma readme_description_tl:
  "readme_description content =
     map_option (\<lambda>line. truncate_200 (strip line))
       (find description_line (tl (split_on (CHR 0x0A) content)))"
proof -
  obtain first rest where lines: "split_on (CHR 0x0A) content = first # rest"
    using split_on_not_Nil by (cases "split_on (CHR 0x0A) content") auto
  show ?thesis
    by (simp add: readme_description_def lines readme_scan_positive)
qed

text \<open>
  C6, as stated, fails on a README.md whose first line is plain text: the loop skips index
  0, so the description is taken from the second line although the first line is neither
  blank nor a heading.
\<close>

theorem readme_first_line_counterexample:
  "spec_readme_line readme_plain = Some ''Hello world''
   \<and> detect_project_description None (Some readme_plain) ''Project without description''
       = ''Second line''"
  by code_simp

text \<open>
  C6, amended. When no package-manifest description exists and README.md is readable, the
  description is taken from the first line after the first line of README.md that is not
  blank and does not start with \<^verbatim>\<open>#\<close>: that line stripped, cut to 200 characters, with an
  ellipsis appended when it is longer than 200 characters. The first line of the file is
  never used, and when no later line qualifies the providers after README.md decide.
\<close>

theorem readme_description_after_first_line:
  "detect_project_description None (Some content) later =
     (case find description_line (tl (split_on (CHR 0x0A) content)) of
        None \<Rightarrow> later
      | Some line \<Rightarrow>
          take 200 (strip line) @ (if length (strip line) > 200 then ''...'' else ''''))"
  by (simp add: detect_project_description_def readme_description_tl truncate_200_def
      split: option.splits)

theorem readme_description_after_first_line_witness:
  "detect_project_description None (Some readme_titled) ''Project without description''
     = replicate 200 (CHR ''a'') @ ''...''
   \<and> find description_line (tl (split_on (CHR 0x0A) readme_titled)) = Some readme_long_line
   \<and> detect_project_description None (Some ''Hello world'') ''Project without description''
     = ''Project without description''"
proof -
  have f: "find description_line (tl (split_on (CHR 0x0A) readme_titled)) = Some readme_long_line"
    by code_simp
  have s: "strip readme_long_line = replicate 201 (CHR ''a'')"
    by code_simp
  have t: "take 200 (replicate 201 (CHR ''a'')) = replicate 200 (CHR ''a'')"
    by simp
  have g: "find description_line (tl (split_on (CHR 0x0A) ''Hello world'')) = None"
    by code_simp
  show ?thesis
    using readme_description_after_first_line [of readme_titled "''Project without description''"]
      readme_description_after_first_line [of "''Hello world''" "''Project without description''"]
    unfolding f g by (simp add: s t)
qed

section \<open>Keyword counting over the sampled files\<close>

lemma keys_bump: "map fst (bump t k c) = map fst c"
  unfolding bump_def by (induction c) auto

lemma feature_types_distinct: "distinct feature_types"
  by (simp add: feature_types_def)

lemma feature_types_all: "t \<in> set feature_types"
  by (cases t) (simp_all add: feature_types_def)

lemma keys_ok_lookup:
  assumes "keys_ok c"
  shows "\<exists>n. map_of c t = Some n"
proof -
  have "t \<in> fst ` set c"
    using assms feature_types_all [of t] unfolding keys_ok_def by (metis list.set_map)
  then show ?thesis
    by (metis map_of_eq_None_iff option.exhaust)
qed

lemma adds_bump: "adds (bump t k) (\<lambda>t'. if t' = t then k else 0)"
  unfolding adds_def
proof (intro allI impI conjI)
  fix c assume ok: "keys_ok c"
  show "keys_ok (bump t k c)"
    using ok by (simp add: keys_ok_def keys_bump)
  fix t'
  obtain n where "map_of c t = Some n"
    using keys_ok_lookup [OF ok] by blast
  then show "count_of (bump t k c) t' = count_of c t' + (if t' = t then k else 0)"
    by (simp add: count_of_def bump_def map_of_map_entry)
qed

lemma adds_id: "adds (\<lambda>c. c) (\<lambda>t. 0)"
  by (simp add: adds_def)

lemma adds_if:
  "adds f g \<Longrightarrow> adds (\<lambda>c. if P then f c else c) (\<lambda>t. if P then g t else 0)"
  by (simp add: adds_def)

lemma adds_comp:
  assumes "adds f g" and "adds f' g'"
  shows "adds (\<lambda>c. f' (f c)) (\<lambda>t. g t + g' t)"
  using assms unfolding adds_def by (simp add: add.assoc)

lemma adds_foldl:
  assumes "\<And>x. x \<in> set xs \<Longrightarrow> adds (\<lambda>c. f c x) (g x)"
  shows "adds (\<lambda>c. foldl f c xs) (\<lambda>t. sum_list (map (\<lambda>x. g x t) xs))"
  using assms
proof (induction xs rule: rev_induct)
  case Nil
  then show ?case by (simp add: adds_def)
next
  case (snoc x xs)
  have a: "adds (\<lambda>c. foldl f c xs) (\<lambda>t. sum_list (map (\<lambda>x. g x t) xs))"
    using snoc by simp
  have b: "adds (\<lambda>c. f c x) (g x)"
    using snoc.prems by simp
  show ?case
    using adds_comp [OF a b] by simp
qed

lemma sum_hits:
  "sum_list (map (\<lambda>indicator. if sublist indicator content
                                    then (if t' = t then 1 else 0) else (0::nat)) xs)
   = (if t' = t then length (filter (\<lambda>indicator. sublist indicator content) xs) else 0)"
  by (induction xs) auto

lemma adds_count_indicators:
  "adds (count_indicators t content) (\<lambda>t'. if t' = t then keyword_hits t content else 0)"
proof -
  have "adds (\<lambda>c. foldl (\<lambda>c indicator. if sublist indicator content then bump t 1 c else c) c
                   (indicators t))
          (\<lambda>t'. sum_list (map (\<lambda>indicator. if sublist indicator content
                                               then (if t' = t then 1 else 0) else 0) (indicators t)))"
    by (rule adds_foldl) (rule adds_if, rule adds_bump)
  then have "adds (\<lambda>c. count_indicators t content c)
          (\<lambda>t'. if t' = t then length (filter (\<lambda>indicator. sublist indicator content) (indicators t))
                else 0)"
    unfolding sum_hits count_indicators_def .
  then show ?thesis
    unfolding keyword_hits_def .
qed

lemma sum_single_type:
  "sum_list (map (\<lambda>t'. if t = t' then h t' else (0::nat)) feature_types) = h t"
  by (cases t) (simp_all add: feature_types_def)

lemma adds_scan_content: "adds (scan_content content) (\<lambda>t. keyword_hits t content)"
proof -
  have "adds (\<lambda>c. foldl (\<lambda>c t. count_indicators t content c) c feature_types)
          (\<lambda>t. sum_list (map (\<lambda>t'. if t = t' then keyword_hits t' content else 0) feature_types))"
    by (rule adds_foldl) (rule adds_count_indicators)
  then show ?thesis
    by (simp add: scan_content_def [abs_def] sum_single_type)
qed

lemma scan_files_counter:
  "keys_ok c \<Longrightarrow> scan_files files c = Some c' \<Longrightarrow>
   keys_ok c' \<and> count_of c' t = count_of c t + sum_list (map (keyword_hits t) (scanned_texts files))"
proof (induction files arbitrary: c)
  case Nil
  then show ?case by (simp add: scanned_texts_def List.map_filter_simps)
next
  case (Cons f fs)
  show ?case
  proof (cases "file_size f")
    case None
    then show ?thesis using Cons.prems by simp
  next
    case (Some sz)
    show ?thesis
    proof (cases "sz > 100000 \<or> file_content f = None")
      case True
      then have "scan_files fs c = Some c'"
        using Cons.prems(2) Some by (auto split: if_splits)
      moreover have "scanned_texts (f # fs) = scanned_texts fs"
        using True Some by (auto simp: scanned_texts_def List.map_filter_simps)
      ultimately show ?thesis
        using Cons.IH [OF Cons.prems(1)] by simp
    next
      case False
      then obtain body where body: "file_content f = Some body" and small: "\<not> sz > 100000"
        by auto
      let ?c1 = "scan_content (lower body) c"
      have ok1: "keys_ok ?c1"
        and cnt1: "count_of ?c1 t = count_of c t + keyword_hits t (lower body)"
        using adds_scan_content [of "lower body"] Cons.prems(1) by (simp_all add: adds_def)
      have "scan_files fs ?c1 = Some c'"
        using Cons.prems(2) Some body small by simp
      then have "keys_ok c' \<and> count_of c' t
          = count_of ?c1 t + sum_list (map (keyword_hits t) (scanned_texts fs))"
        using Cons.IH [OF ok1] by simp
      moreover have "scanned_texts (f # fs) = lower body # scanned_texts fs"
        using Some body small by (simp add: scanned_texts_def List.map_filter_simps)
      ultimately show ?thesis
        using cnt1 by simp
    qed
  qed
qed

lemma scan_files_None: "scan_files files c = None \<longleftrightarrow> (\<exists>f \<in> set files. file_size f = None)"
  by (induction files arbitrary: c) (auto split: option.splits)

lemma source_files_of_extension:
  "f \<in> set (source_files_of extensions entries) \<Longrightarrow>
   lower (splitext_ext (file_name f)) \<in> set extensions"
  by (auto simp: source_files_of_def split: if_splits)

lemma sampled_source_files_extension:
  assumes "f \<in> set (sampled_source_files project_path tree)"
  shows "lower (splitext_ext (file_name f)) \<in> set feature_extensions"
proof -
  have "f \<in> set (source_files_of feature_extensions (os_walk (\<lambda>_. True) project_path tree))"
    using assms unfolding sampled_source_files_def by (rule in_set_takeD)
  then show ?thesis by (rule source_files_of_extension)
qed

lemma keyword_hits_bound: "keyword_hits t content \<le> length (indicators t)"
  by (simp add: keyword_hits_def)

lemma keys_ok_initial: "keys_ok initial_counters"
  by (simp add: keys_ok_def initial_counters_def comp_def)

lemma count_of_initial: "count_of initial_counters t = 0"
  by (cases t) (simp_all add: count_of_def initial_counters_def feature_types_def)

text \<open>
  C3, as stated, fails: a source file in which the keyword \<^verbatim>\<open>flask\<close> occurs three times
  raises the web counter by 1, not by 3, because the scan tests \<^verbatim>\<open>indicator in content\<close>
  once per keyword.
\<close>

theorem repeated_keyword_counterexample:
  "occurrences ''flask'' (lower ''flask flask flask'') = 3
   \<and> counter_of Web (file_counters ''/srv/demo'' flask_thrice_tree) = Some 1"
  by code_simp

text \<open>
  C3, amended. At most 50 source files are sampled, each with one of the extensions .py, .js,
  .ts, .java, .php, .rb. The scan raises exactly when the size of a sampled file cannot be
  read. Otherwise every counter is the sum, over the sampled files of at most 100000 bytes
  whose text can be read, of the number of keywords of its category that occur in the
  lower-cased text: a keyword adds 1 per file in which it occurs, however often it occurs
  there, so one file adds at most the length of the keyword list.
\<close>

theorem keyword_counted_once_per_file:
  "length (sampled_source_files project_path tree) \<le> 50
   \<and> (\<forall>f \<in> set (sampled_source_files project_path tree).
         lower (splitext_ext (file_name f)) \<in> set [''.py'', ''.js'', ''.ts'', ''.java'', ''.php'', ''.rb''])
   \<and> (file_counters project_path tree = None
        \<longleftrightarrow> (\<exists>f \<in> set (sampled_source_files project_path tree). file_size f = None))
   \<and> (\<forall>c t. file_counters project_path tree = Some c \<longrightarrow>
         count_of c t
           = sum_list (map (keyword_hits t) (scanned_texts (sampled_source_files project_path tree))))
   \<and> (\<forall>t content. keyword_hits t content \<le> length (indicators t))"
proof (intro conjI allI impI ballI)
  show "length (sampled_source_files project_path tree) \<le> 50"
    by (simp add: sampled_source_files_def)
next
  fix f assume "f \<in> set (sampled_source_files project_path tree)"
  then have "lower (splitext_ext (file_name f)) \<in> set feature_extensions"
    by (rule sampled_source_files_extension)
  then show "lower (splitext_ext (file_name f)) \<in> set [''.py'', ''.js'', ''.ts'', ''.java'', ''.php'', ''.rb'']"
    by (simp add: feature_extensions_def)
next
  show "file_counters project_path tree = None
        \<longleftrightarrow> (\<exists>f \<in> set (sampled_source_files project_path tree). file_size f = None)"
    by (simp add: file_counters_def scan_files_None)
next
  fix c t assume "file_counters project_path tree = Some c"
  then show "count_of c t
      = sum_list (map (keyword_hits t) (scanned_texts (sampled_source_files project_path tree)))"
    using scan_files_counter [OF keys_ok_initial, of "sampled_source_files project_path tree" c t]
    by (simp add: file_counters_def count_of_initial)
next
  fix t content show "keyword_hits t content \<le> length (indicators t)"
    by (rule keyword_hits_bound)
qed

theorem keyword_counted_once_per_file_witness:
  "counter_values (file_counters ''/srv/demo'' flask_thrice_tree) = Some [1, 0, 0, 0, 0, 0, 0, 0, 0, 0]
   \<and> scanned_texts (sampled_source_files ''/srv/demo'' flask_thrice_tree) = [''flask flask flask'']
   \<and> keyword_hits Web ''flask flask flask'' = 1
   \<and> counter_of Web (file_counters ''/srv/demo'' web15_tree) = Some 15"
proof -
  have a: "counter_values (file_counters ''/srv/demo'' flask_thrice_tree)
      = Some [1, 0, 0, 0, 0, 0, 0, 0, 0, 0]"
    by code_simp
  have b: "scanned_texts (sampled_source_files ''/srv/demo'' flask_thrice_tree) = [''flask flask flask'']"
    by code_simp
  have c: "keyword_hits Web ''flask flask flask'' = 1"
    by code_simp
  have d: "counter_of Web (file_counters ''/srv/demo'' web15_tree) = Some 15"
    by code_simp
  show ?thesis
    using a b c d keyword_counted_once_per_file [of "''/srv/demo''" flask_thrice_tree]
    by simp
qed

section \<open>Qualification of features\<close>

lemma keys_if_bump: "map fst (if P then bump t k c else c) = map fst c"
  by (simp add: keys_bump)

lemma keys_ok_tech_bonus_one: "keys_ok c \<Longrightarrow> keys_ok (tech_bonus_one c tech)"
  unfolding tech_bonus_one_def keys_ok_def Let_def by (simp only: keys_if_bump)

lemma keys_ok_tech_bonus: "keys_ok c \<Longrightarrow> keys_ok (tech_bonus techs c)"
  unfolding tech_bonus_def
  by (induction techs arbitrary: c) (simp_all add: keys_ok_tech_bonus_one)

lemma keys_ok_dir_step:
  "keys_ok c \<Longrightarrow>
   keys_ok (foldl (\<lambda>c t. if list_ex (\<lambda>indicator. sublist indicator dir_name) (indicators t)
                            then bump t 5 c else c) c ts)"
  by (induction ts arbitrary: c) (simp_all add: keys_ok_def keys_bump)

lemma keys_ok_dir_bonus: "keys_ok c \<Longrightarrow> keys_ok (dir_bonus dirs c)"
  unfolding dir_bonus_def
  by (induction dirs arbitrary: c) (simp_all add: keys_ok_dir_step)

lemma keys_ok_feature_counters:
  assumes "feature_counters project_path tree techs = Some c"
  shows "keys_ok c"
proof -
  obtain c0 where c0: "file_counters project_path tree = Some c0"
    and c: "c = tech_bonus techs (dir_bonus (project_dirs_of tree) c0)"
    using assms by (auto simp: feature_counters_def)
  have "keys_ok c0"
    using c0 scan_files_counter [OF keys_ok_initial] by (simp add: file_counters_def)
  then show ?thesis
    unfolding c by (intro keys_ok_tech_bonus keys_ok_dir_bonus)
qed

lemma alist_as_lookup:
  "distinct (map fst c) \<Longrightarrow> c = map (\<lambda>t. (t, count_of c t)) (map fst c)"
proof (induction c)
  case Nil
  then show ?case by simp
next
  case (Cons p c)
  obtain k v where p: "p = (k, v)" by (cases p)
  have k: "k \<notin> fst ` set c" and d: "distinct (map fst c)"
    using Cons.prems by (simp_all add: p)
  have "map (\<lambda>t. (t, count_of ((k, v) # c) t)) (map fst c) = map (\<lambda>t. (t, count_of c t)) (map fst c)"
    using k by (intro map_cong) (auto simp: count_of_def)
  also have "\<dots> = c"
    using Cons.IH [OF d] by simp
  finally have tail: "map (\<lambda>t. (t, count_of ((k, v) # c) t)) (map fst c) = c" .
  have head: "count_of ((k, v) # c) k = v"
    by (simp add: count_of_def)
  show ?case
    by (simp only: p list.map fst_conv tail head)
qed

lemma qualified_features_types:
  assumes "keys_ok c"
  shows "qualified_features c = concat (map (\<lambda>t. qualify (t, count_of c t)) feature_types)"
proof -
  have "distinct (map fst c)"
    using assms feature_types_distinct by (simp add: keys_ok_def)
  then have "c = map (\<lambda>t. (t, count_of c t)) (map fst c)"
    by (rule alist_as_lookup)
  moreover have "map fst c = feature_types"
    using assms by (simp add: keys_ok_def)
  ultimately have c: "c = map (\<lambda>t. (t, count_of c t)) feature_types"
    by (simp only:)
  have "map qualify c = map qualify (map (\<lambda>t. (t, count_of c t)) feature_types)"
    by (subst c) (rule refl)
  then have "map qualify c = map (\<lambda>t. qualify (t, count_of c t)) feature_types"
    by (simp only: map_map comp_def)
  then show ?thesis
    by (simp only: qualified_features_def)
qed

lemma set_qualified_features:
  assumes "keys_ok c"
  shows "set (qualified_features c) = (\<Union>t. set (qualify (t, count_of c t)))"
  using feature_types_all by (auto simp: qualified_features_types [OF assms])

lemma qualify_unfold:
  "qualify (t, n) =
     (if n \<ge> threshold t
      then [\<lparr>feature_name = fst (feature_descriptions t),
             feature_description = snd (feature_descriptions t),
             feature_category = type_key t, feature_priority = priority_of n\<rparr>]
      else [])"
  by (simp add: qualify_def split: prod.splits)

lemma qualify_member:
  "f \<in> set (qualify (t, n)) \<longleftrightarrow>
     n \<ge> threshold t
     \<and> f = \<lparr>feature_name = fst (feature_descriptions t),
             feature_description = snd (feature_descriptions t),
             feature_category = type_key t, feature_priority = priority_of n\<rparr>"
  unfolding qualify_unfold by (cases "n \<ge> threshold t") simp_all

lemma type_key_inject: "type_key t = type_key t' \<Longrightarrow> t = t'"
  by (cases t; cases t') simp_all

lemma web_name_only: "fst (feature_descriptions t) = ''Web Application'' \<Longrightarrow> t = Web"
  by (cases t) simp_all

lemma name_features_category:
  "f \<in> set (name_features n) \<Longrightarrow> feature_category f \<in> {''download'', ''integration''}"
  by (auto simp: name_features_def split: if_splits)

lemma name_features_name:
  "f \<in> set (name_features n) \<Longrightarrow> feature_name f \<in> {''Content Download'', ''YouTube Integration''}"
  by (auto simp: name_features_def split: if_splits)

lemma generic_features_category:
  "f \<in> set (generic_features n) \<Longrightarrow> feature_category f = ''general''"
  by (auto simp: generic_features_def Let_def split: if_splits)

lemma type_key_not_special:
  "type_key t \<notin> {''download'', ''integration'', ''general''}"
  by (cases t) simp_all

lemma lower_char_not_A: "lower_char c \<noteq> CHR ''A''"
proof -
  have "of_char (lower_char c) \<noteq> (65::nat)"
    by (auto simp: lower_char_def Let_def)
  then show ?thesis by auto
qed

lemma lower_no_A: "CHR ''A'' \<notin> set (lower s)"
proof
  assume "CHR ''A'' \<in> set (lower s)"
  then obtain c where "lower_char c = CHR ''A''"
    unfolding lower_def by (metis imageE list.set_map)
  then show False
    using lower_char_not_A by blast
qed

lemma words_from_chars:
  "w \<in> set (words_from cur s) \<Longrightarrow> set w \<subseteq> set cur \<union> set s"
  by (induction cur s rule: words_from.induct) (auto split: if_splits)

lemma name_words_chars:
  assumes "w \<in> set (name_words n)"
  shows "set w \<subseteq> set n \<union> {CHR '' ''}"
proof -
  have "set w \<subseteq> set (replace_char (CHR ''_'') (CHR '' '') (replace_char (CHR ''-'') (CHR '' '') n))"
    using assms words_from_chars [of w "[]"] by (simp add: name_words_def split_words_def)
  then show ?thesis
    by (auto simp: replace_char_def split: if_splits)
qed

lemma join_space_chars: "set (join_space ws) \<subseteq> (\<Union>w \<in> set ws. set w) \<union> {CHR '' ''}"
  by (induction ws rule: join_space.induct) auto

lemma generic_name_no_A:
  assumes "f \<in> set (generic_features (lower s))"
  shows "CHR ''A'' \<notin> set (tl (feature_name f))"
proof -
  let ?ws = "name_words (lower s)"
  have len: "length ?ws > 1"
    and name: "feature_name f = capitalize (hd ?ws) @ '' '' @ join_space (tl ?ws)"
    using assms by (auto simp: generic_features_def Let_def split: if_splits)
  have words: "CHR ''A'' \<notin> set w" if "w \<in> set ?ws" for w
    using name_words_chars [OF that] lower_no_A [of s] by auto
  have subj: "CHR ''A'' \<notin> set (join_space (tl ?ws))"
  proof
    assume "CHR ''A'' \<in> set (join_space (tl ?ws))"
    then obtain w where "w \<in> set (tl ?ws)" and "CHR ''A'' \<in> set w"
      using join_space_chars [of "tl ?ws"] by auto
    then show False
      using words [of w] by (metis list.set_sel(2) tl_Nil)
  qed
  show ?thesis
  proof (cases "hd ?ws")
    case Nil
    then show ?thesis using subj by (simp add: name capitalize_def)
  next
    case (Cons x xs)
    have rest: "CHR ''A'' \<notin> set (map lower_char xs)"
      using lower_no_A [of xs] unfolding lower_def .
    have "title_char x = [hd (title_char x)] \<or> title_char x = ''Ss''"
      by (simp add: title_char_def Let_def)
    then have "tl (title_char x @ map lower_char xs @ '' '' @ join_space (tl ?ws))
        = map lower_char xs @ '' '' @ join_space (tl ?ws)
      \<or> tl (title_char x @ map lower_char xs @ '' '' @ join_space (tl ?ws))
        = ''s'' @ map lower_char xs @ '' '' @ join_space (tl ?ws)"
      by (metis append_Cons append_Nil list.sel(3))
    then show ?thesis
      using subj rest by (auto simp: name capitalize_def Cons)
  qed
qed

lemma generic_not_web:
  "f \<in> set (generic_features (lower s)) \<Longrightarrow> feature_name f \<noteq> ''Web Application''"
  using generic_name_no_A [of f s] by auto

lemma set_features_from:
  "set (features_from project_path c) =
     set (qualified_features c) \<union> set (name_features (lower (basename project_path)))
     \<union> (if qualified_features c = [] \<and> name_features (lower (basename project_path)) = []
        then set (generic_features (lower (basename project_path))) else {})"
  by (auto simp: features_from_def Let_def)

lemma web_feature_member:
  assumes "keys_ok c"
  shows "web_feature p \<in> set (features_from project_path c)
         \<longleftrightarrow> count_of c Web \<ge> 8 \<and> p = priority_of (count_of c Web)"
proof -
  have q: "web_feature p \<in> set (qualified_features c)
         \<longleftrightarrow> count_of c Web \<ge> 8 \<and> p = priority_of (count_of c Web)"
  proof
    assume "web_feature p \<in> set (qualified_features c)"
    then obtain t where t: "web_feature p \<in> set (qualify (t, count_of c t))"
      using set_qualified_features [OF assms] by auto
    then have "type_key t = ''web''"
      by (auto simp: qualify_member web_feature_def)
    then have "t = Web"
      using type_key_inject [of t Web] by simp
    then show "count_of c Web \<ge> 8 \<and> p = priority_of (count_of c Web)"
      using t by (auto simp: qualify_member web_feature_def threshold_def)
  next
    assume "count_of c Web \<ge> 8 \<and> p = priority_of (count_of c Web)"
    then have "web_feature p \<in> set (qualify (Web, count_of c Web))"
      by (simp add: qualify_member web_feature_def threshold_def)
    then show "web_feature p \<in> set (qualified_features c)"
      using set_qualified_features [OF assms] by auto
  qed
  have "web_feature p \<notin> set (name_features n)" for n
    using name_features_category [of "web_feature p" n] by (auto simp: web_feature_def)
  moreover have "web_feature p \<notin> set (generic_features n)" for n
    using generic_features_category [of "web_feature p" n] by (auto simp: web_feature_def)
  ultimately show ?thesis
    using q by (auto simp: set_features_from split: if_splits)
qed

lemma no_web_feature_below:
  assumes "keys_ok c" and "count_of c Web < 8"
  shows "\<not> has_feature_named ''Web Application'' (features_from project_path c)"
proof
  assume "has_feature_named ''Web Application'' (features_from project_path c)"
  then obtain f where f: "f \<in> set (features_from project_path c)"
    and n: "feature_name f = ''Web Application''"
    by (auto simp: has_feature_named_def list_ex_iff)
  let ?n = "lower (basename project_path)"
  from f consider "f \<in> set (qualified_features c)" | "f \<in> set (name_features ?n)"
    | "f \<in> set (generic_features ?n)"
    by (auto simp: set_features_from split: if_splits)
  then show False
  proof cases
    case 1
    then obtain t where t: "f \<in> set (qualify (t, count_of c t))"
      using set_qualified_features [OF assms(1)] by auto
    then have "fst (feature_descriptions t) = ''Web Application''"
      using n by (auto simp: qualify_member)
    then have "t = Web" by (rule web_name_only)
    then show False
      using t assms(2) by (auto simp: qualify_member threshold_def)
  next
    case 2
    then show False using name_features_name [of f ?n] n by auto
  next
    case 3
    then show False using generic_not_web [of f "basename project_path"] n by simp
  qed
qed

lemma category_member:
  assumes "keys_ok c"
  shows "(\<exists>f \<in> set (features_from project_path c). feature_category f = type_key t)
         \<longleftrightarrow> count_of c t \<ge> threshold t"
proof
  assume "\<exists>f \<in> set (features_from project_path c). feature_category f = type_key t"
  then obtain f where f: "f \<in> set (features_from project_path c)"
    and k: "feature_category f = type_key t"
    by blast
  let ?n = "lower (basename project_path)"
  from f consider "f \<in> set (qualified_features c)" | "f \<in> set (name_features ?n)"
    | "f \<in> set (generic_features ?n)"
    by (auto simp: set_features_from split: if_splits)
  then show "count_of c t \<ge> threshold t"
  proof cases
    case 1
    then obtain t' where t': "f \<in> set (qualify (t', count_of c t'))"
      using set_qualified_features [OF assms] by auto
    then have "type_key t' = type_key t"
      using k by (auto simp: qualify_member)
    then have "t' = t" by (rule type_key_inject)
    then show ?thesis using t' by (auto simp: qualify_member)
  next
    case 2
    then show ?thesis
      using name_features_category [of f ?n] k type_key_not_special [of t] by auto
  next
    case 3
    then show ?thesis
      using generic_features_category [of f ?n] k type_key_not_special [of t] by auto
  qed
next
  assume "count_of c t \<ge> threshold t"
  then have "\<exists>f. f \<in> set (qualify (t, count_of c t)) \<and> feature_category f = type_key t"
    by (simp add: qualify_member)
  then obtain f where "f \<in> set (qualified_features c)" and "feature_category f = type_key t"
    using set_qualified_features [OF assms] by auto
  then show "\<exists>f \<in> set (features_from project_path c). feature_category f = type_key t"
    by (auto simp: set_features_from)
qed

lemma category_priority:
  assumes "keys_ok c" and "f \<in> set (features_from project_path c)"
    and "feature_category f = type_key t"
  shows "feature_priority f = priority_of (count_of c t)"
proof -
  let ?n = "lower (basename project_path)"
  from assms(2) consider "f \<in> set (qualified_features c)" | "f \<in> set (name_features ?n)"
    | "f \<in> set (generic_features ?n)"
    by (auto simp: set_features_from split: if_splits)
  then show ?thesis
  proof cases
    case 1
    then obtain t' where t': "f \<in> set (qualify (t', count_of c t'))"
      using set_qualified_features [OF assms(1)] by auto
    then have "type_key t' = type_key t"
      using assms(3) by (auto simp: qualify_member)
    then have "t' = t" by (rule type_key_inject)
    then show ?thesis using t' by (auto simp: qualify_member)
  next
    case 2
    then show ?thesis
      using name_features_category [of f ?n] assms(3) type_key_not_special [of t] by auto
  next
    case 3
    then show ?thesis
      using generic_features_category [of f ?n] assms(3) type_key_not_special [of t] by auto
  qed
qed

text \<open>
  C4. Whenever the feature detection returns, with \<open>c\<close> the counters after the file, directory
  and technology loops: a web counter of exactly 7 yields no feature named
  \<^verbatim>\<open>Web Application\<close>; a web counter of exactly 8 yields that feature with priority 3, of 10
  with priority 4, of 15 with priority 5. In general a category has its feature exactly when
  its counter reaches the threshold (8 for web, cli and api, 5 for the others), and the
  priority of that feature is 5 from 15 on, 4 from 10 on and 3 below.
\<close>

theorem feature_boundaries:
  assumes "feature_counters project_path tree techs = Some c"
  shows "\<exists>fs. detect_project_features project_path tree techs = Some fs
     \<and> (count_of c Web = 7 \<longrightarrow> \<not> has_feature_named ''Web Application'' fs)
     \<and> (count_of c Web = 8 \<longrightarrow> web_feature 3 \<in> set fs)
     \<and> (count_of c Web = 10 \<longrightarrow> web_feature 4 \<in> set fs)
     \<and> (count_of c Web = 15 \<longrightarrow> web_feature 5 \<in> set fs)
     \<and> (\<forall>t. (\<exists>f \<in> set fs. feature_category f = type_key t)
              \<longleftrightarrow> count_of c t \<ge> (if t \<in> {Web, Cli, Api} then 8 else 5))
     \<and> (\<forall>t. \<forall>f \<in> set fs. feature_category f = type_key t \<longrightarrow>
              feature_priority f
                = (if count_of c t \<ge> 15 then 5 else if count_of c t \<ge> 10 then 4 else 3))"
proof -
  let ?fs = "features_from project_path c"
  have ok: "keys_ok c"
    using assms by (rule keys_ok_feature_counters)
  have r: "detect_project_features project_path tree techs = Some ?fs"
    using assms by (simp add: detect_project_features_def)
  have w7: "count_of c Web = 7 \<longrightarrow> \<not> has_feature_named ''Web Application'' ?fs"
    using no_web_feature_below [OF ok, of project_path] by simp
  have w8: "count_of c Web = 8 \<longrightarrow> web_feature 3 \<in> set ?fs"
    by (simp add: web_feature_member [OF ok] priority_of_def)
  have w10: "count_of c Web = 10 \<longrightarrow> web_feature 4 \<in> set ?fs"
    by (simp add: web_feature_member [OF ok] priority_of_def)
  have w15: "count_of c Web = 15 \<longrightarrow> web_feature 5 \<in> set ?fs"
    by (simp add: web_feature_member [OF ok] priority_of_def)
  have th: "threshold t = (if t \<in> {Web, Cli, Api} then 8 else 5)" for t
    by (auto simp: threshold_def)
  have cat: "\<forall>t. (\<exists>f \<in> set ?fs. feature_category f = type_key t)
              \<longleftrightarrow> count_of c t \<ge> (if t \<in> {Web, Cli, Api} then 8 else 5)"
    using category_member [OF ok, of project_path] unfolding th by blast
  have pri: "\<forall>t. \<forall>f \<in> set ?fs. feature_category f = type_key t \<longrightarrow>
              feature_priority f
                = (if count_of c t \<ge> 15 then 5 else if count_of c t \<ge> 10 then 4 else 3)"
    using category_priority [OF ok, of _ project_path] unfolding priority_of_def by blast
  show ?thesis
    using r w7 w8 w10 w15 cat pri by blast
qed

theorem feature_boundaries_witness:
  "feature_counters ''/srv/demo'' web7_tree [] = Some (web_counters 7 1)
   \<and> detect_project_features ''/srv/demo'' web7_tree [] = Some []
   \<and> feature_counters ''/srv/demo'' web8_tree [] = Some (web_counters 8 1)
   \<and> detect_project_features ''/srv/demo'' web8_tree [] = Some [web_feature 3]
   \<and> feature_counters ''/srv/demo'' web10_tree [] = Some (web_counters 10 1)
   \<and> detect_project_features ''/srv/demo'' web10_tree [] = Some [web_feature 4]
   \<and> feature_counters ''/srv/demo'' web15_tree [] = Some (web_counters 15 2)
   \<and> detect_project_features ''/srv/demo'' web15_tree [] = Some [web_feature 5]"
proof -
  have c7: "feature_counters ''/srv/demo'' web7_tree [] = Some (web_counters 7 1)"
    and c8: "feature_counters ''/srv/demo'' web8_tree [] = Some (web_counters 8 1)"
    and c10: "feature_counters ''/srv/demo'' web10_tree [] = Some (web_counters 10 1)"
    and c15: "feature_counters ''/srv/demo'' web15_tree [] = Some (web_counters 15 2)"
    by code_simp+
  have f7: "detect_project_features ''/srv/demo'' web7_tree [] = Some []"
    and f8: "detect_project_features ''/srv/demo'' web8_tree [] = Some [web_feature 3]"
    and f10: "detect_project_features ''/srv/demo'' web10_tree [] = Some [web_feature 4]"
    and f15: "detect_project_features ''/srv/demo'' web15_tree [] = Some [web_feature 5]"
    by code_simp+
  show ?thesis
    using feature_boundaries [OF c7] feature_boundaries [OF c8] feature_boundaries [OF c10]
      feature_boundaries [OF c15] c7 c8 c10 c15 f7 f8 f10 f15
    by simp
qed

section \<open>The generic feature\<close>

lemma download_in_downloader:
  assumes "sublist ''downloader'' n"
  shows "sublist ''download'' n"
proof -
  have "sublist ''download'' ''downloader''"
    by code_simp
  then show ?thesis
    using assms by (rule sublist_order.order.trans)
qed

lemma no_qualified_features:
  assumes "keys_ok c" and "\<forall>t. count_of c t < threshold t"
  shows "qualified_features c = []"
proof -
  have "qualify (t, count_of c t) = []" for t
    using assms(2) by (simp add: qualify_unfold not_le)
  then show ?thesis
    by (simp add: qualified_features_types [OF assms(1)])
qed

text \<open>
  C8, as stated, fails: a project directory named \<^verbatim>\<open>demo\<close> with no source files reaches no
  threshold and triggers no name rule, yet no feature is synthesized, because the name is a
  single word.
\<close>

theorem generic_feature_counterexample:
  "feature_counters ''/srv/demo'' [] [] = Some zero_counters
   \<and> name_features (lower (basename ''/srv/demo'')) = []
   \<and> name_words (lower (basename ''/srv/demo'')) = [''demo'']
   \<and> detect_project_features ''/srv/demo'' [] [] = Some []"
  by code_simp

text \<open>
  C8, amended. When the feature detection returns, no counter reaches its threshold and the
  lower-cased directory name contains neither \<^verbatim>\<open>download\<close> nor \<^verbatim>\<open>youtube\<close>: the name, with
  hyphens and underscores turned into spaces, is split into words; with two or more words
  exactly one generic feature is synthesized, named by the capitalized first word followed by
  the remaining words, with category \<^verbatim>\<open>general\<close> and priority 3; with fewer than two words
  the feature list is empty. The statement covers the names whose first word has a
  capitalized form within the modelled code points (it does not start with the micro sign or
  the y with diaeresis).
\<close>

theorem generic_feature_synthesis:
  assumes "feature_counters project_path tree techs = Some c"
    and "\<forall>t. count_of c t < (if t \<in> {Web, Cli, Api} then 8 else 5)"
    and "\<not> sublist ''download'' (lower (basename project_path))"
    and "\<not> sublist ''youtube'' (lower (basename project_path))"
    and "list_all capitalizable (take 1 (name_words (lower (basename project_path))))"
  shows "detect_project_features project_path tree techs =
     Some (let words = name_words (lower (basename project_path))
           in if length words > 1
              then [\<lparr>feature_name = capitalize (hd words) @ '' '' @ join_space (tl words),
                     feature_description = ''Application for working with '' @ join_space (tl words),
                     feature_category = ''general'', feature_priority = 3\<rparr>]
              else [])"
proof -
  let ?n = "lower (basename project_path)"
  have ok: "keys_ok c"
    using assms(1) by (rule keys_ok_feature_counters)
  have "\<forall>t. count_of c t < threshold t"
    using assms(2) by (auto simp: threshold_def)
  then have q: "qualified_features c = []"
    using ok by (intro no_qualified_features)
  have "\<not> sublist ''downloader'' ?n"
    using assms(3) download_in_downloader by blast
  then have nf: "name_features ?n = []"
    using assms(3,4) by (simp add: name_features_def)
  have "features_from project_path c = generic_features ?n"
    by (simp add: features_from_def Let_def q nf)
  then show ?thesis
    using assms(1) by (simp add: detect_project_features_def generic_features_def Let_def)
qed

theorem generic_feature_synthesis_witness:
  "detect_project_features ''/srv/Photo_album-Maker'' [] [] =
     Some [\<lparr>feature_name = ''Photo album maker'',
            feature_description = ''Application for working with album maker'',
            feature_category = ''general'', feature_priority = 3\<rparr>]
   \<and> name_words (lower (basename ''/srv/Photo_album-Maker'')) = [''photo'', ''album'', ''maker'']
   \<and> detect_project_features latin_project_path [] [] =
     Some [\<lparr>feature_name = [CHR 0xC9, CHR ''t'', CHR 0xE9] @ '' x'',
            feature_description = ''Application for working with x'',
            feature_category = ''general'', feature_priority = 3\<rparr>]
   \<and> detect_project_features ''/srv/demo'' [] [] = Some []"
proof -
  have c: "feature_counters ''/srv/Photo_album-Maker'' [] [] = Some zero_counters"
    and c': "feature_counters ''/srv/demo'' [] [] = Some zero_counters"
    and c'': "feature_counters latin_project_path [] [] = Some zero_counters"
    by code_simp+
  have z: "\<forall>t. count_of zero_counters t < (if t \<in> {Web, Cli, Api} then 8 else 5)"
  proof
    fix t show "count_of zero_counters t < (if t \<in> {Web, Cli, Api} then 8 else 5)"
      by (cases t) (simp_all add: zero_counters_def count_of_def)
  qed
  have n: "lower (basename ''/srv/Photo_album-Maker'') = ''photo_album-maker''"
    and n': "lower (basename ''/srv/demo'') = ''demo''"
    and n'': "lower (basename latin_project_path) = [CHR 0xE9, CHR ''t'', CHR 0xE9] @ ''_x''"
    by code_simp+
  have d: "\<not> sublist ''download'' ''photo_album-maker''"
    and y: "\<not> sublist ''youtube'' ''photo_album-maker''"
    and d': "\<not> sublist ''download'' ''demo''"
    and y': "\<not> sublist ''youtube'' ''demo''"
    and d'': "\<not> sublist ''download'' ([CHR 0xE9, CHR ''t'', CHR 0xE9] @ ''_x'')"
    and y'': "\<not> sublist ''youtube'' ([CHR 0xE9, CHR ''t'', CHR 0xE9] @ ''_x'')"
    by code_simp+
  have w: "name_words ''photo_album-maker'' = [''photo'', ''album'', ''maker'']"
    and w': "name_words ''demo'' = [''demo'']"
    and w'': "name_words ([CHR 0xE9, CHR ''t'', CHR 0xE9] @ ''_x'') = [[CHR 0xE9, CHR ''t'', CHR 0xE9], ''x'']"
    by code_simp+
  have k: "list_all capitalizable (take 1 [''photo'', ''album'', ''maker''])"
    and k': "list_all capitalizable (take 1 [''demo''])"
    and k'': "list_all capitalizable (take 1 [[CHR 0xE9, CHR ''t'', CHR 0xE9], ''x''])"
    by code_simp+
  have cap: "capitalize ''photo'' = ''Photo''"
    and cap'': "capitalize [CHR 0xE9, CHR ''t'', CHR 0xE9] = [CHR 0xC9, CHR ''t'', CHR 0xE9]"
    by code_simp+
  have r: "detect_project_features ''/srv/Photo_album-Maker'' [] [] =
     Some [\<lparr>feature_name = ''Photo album maker'',
            feature_description = ''Application for working with album maker'',
            feature_category = ''general'', feature_priority = 3\<rparr>]"
    using generic_feature_synthesis [OF c z] d y k unfolding n w by (simp add: cap)
  have r': "detect_project_features ''/srv/demo'' [] [] = Some []"
    using generic_feature_synthesis [OF c' z] d' y' k' unfolding n' w' by simp
  have r'': "detect_project_features latin_project_path [] [] =
     Some [\<lparr>feature_name = [CHR 0xC9, CHR ''t'', CHR 0xE9] @ '' x'',
            feature_description = ''Application for working with x'',
            feature_category = ''general'', feature_priority = 3\<rparr>]"
    using generic_feature_synthesis [OF c'' z] d'' y'' k'' unfolding n'' w'' by (simp add: cap'')
  show ?thesis
    using r r' r'' w n by simp
qed

section \<open>The Express.js project, end to end\<close>

lemma express_hint_iff:
  "''Express.js Middleware Architecture'' \<in> set (architecture_components tree techs)
   \<longleftrightarrow> ''express'' \<in> set (map (\<lambda>tech. lower (tech_name tech)) techs)"
  unfolding architecture_components_def Let_def set_append
  by (simp del: set_map)

text \<open>
  C7. The claim does not hold on the code. For the project that consists of the package.json
  of the claim and an empty \<^verbatim>\<open>routes\<close> directory, analysed with empty configuration
  tables, the technologies are JavaScript, the backend technology Express.js with importance
  5 and the backend technology Routing with importance 3, as the claim says; but the
  architecture description is the generic sentence and does not mention Express.js. The hint
  is appended exactly when some technology is named \<^verbatim>\<open>express\<close> up to case, and the
  registry names the technology \<^verbatim>\<open>Express.js\<close>.
\<close>

theorem express_project_analysis:
  "map_option analysis_technologies (analyze demo_environment ''/srv/demo'' express_project)
     = Some [technology_of ''language'' ''JavaScript'' 5,
             technology_of ''backend'' ''Express.js'' 5,
             technology_of ''backend'' ''Routing'' 3]
   \<and> map_option analysis_architecture (analyze demo_environment ''/srv/demo'' express_project)
     = Some ''Standard application architecture.''
   \<and> \<not> sublist ''Express'' ''Standard application architecture.''
   \<and> lower ''Express.js'' \<noteq> ''express''"
  by code_simp

end
